theory Spec2Isabelle
  imports Main "HOL-Library.AList"
begin

section \<open>Python values used by the scripts\<close>

text \<open>
  The scripts exchange data as JSON files.  A value read by \<^verbatim>\<open>json.load\<close> is a
  \<open>json\<close>; Python's \<^verbatim>\<open>None\<close> is \<open>JNull\<close>, a \<^verbatim>\<open>dict\<close> is an association list
  (looked up with \<open>map_of\<close>, updated in place with \<open>AList.update\<close>).  Numbers are
  integers here: none of the modelled code computes with a float.  A Python string is
  a \<open>string\<close>, one \<open>char\<close> for each of its characters, so that \<open>length\<close> is
  \<^verbatim>\<open>len\<close> and \<open>take n\<close> is the slice \<^verbatim>\<open>[:n]\<close>.
\<close>

datatype json =
    JNull
  | JBool bool
  | JInt int
  | JStr string
  | JList "json list"
  | JObj "(string \<times> json) list"

text \<open>Python truthiness, as \<^verbatim>\<open>if not json_data\<close> reads it.\<close>

fun truthy :: "json \<Rightarrow> bool" where
  "truthy JNull = False"
| "truthy (JBool b) = b"
| "truthy (JInt n) = (n \<noteq> 0)"
| "truthy (JStr s) = (s \<noteq> [])"
| "truthy (JList xs) = (xs \<noteq> [])"
| "truthy (JObj kvs) = (kvs \<noteq> [])"

text \<open>The exceptions the modelled code can meet, by class.\<close>

datatype error =
    FileNotFoundError
  | JSONDecodeError
  | AttributeError
  | TypeError
  | KeyError
  | ValueError
  | ValidationError
  | OSError
  | LibraryError string

definition NL :: string where
  "NL = [CHR 0x0A]"

text \<open>\<^verbatim>\<open>str(n)\<close> for an integer: decimal digits, a minus sign when negative.\<close>

definition digit_char :: "nat \<Rightarrow> char" where
  "digit_char d = ''0123456789'' ! d"

function str_nat :: "nat \<Rightarrow> string" where
  "str_nat n = (if n < 10 then [digit_char n] else str_nat (n div 10) @ [digit_char (n mod 10)])"
  by pat_completeness auto
termination
  by (relation "measure id") auto

declare str_nat.simps [simp del]

definition str_int :: "int \<Rightarrow> string" where
  "str_int i = (if i < 0 then CHR ''-'' # str_nat (nat (- i)) else str_nat (nat i))"

section \<open>chunking.py: the configuration\<close>

text \<open>
  \<^verbatim>\<open>ChunkingConfig.__init__\<close> stores its six arguments in the object and does nothing
  else: it has no check and no \<^verbatim>\<open>raise\<close>.  The result type is kept as
  \<open>error + ChunkingConfig\<close> so that "construction fails" is a statement about this
  function.
\<close>

record ChunkingConfig =
  max_characters :: int
  new_after_n_chars :: int
  combine_text_under_n_chars :: int
  overlap :: int
  overlap_all :: bool
  multipage_sections :: bool

definition ChunkingConfig_init ::
  "int \<Rightarrow> int \<Rightarrow> int \<Rightarrow> int \<Rightarrow> bool \<Rightarrow> bool \<Rightarrow> error + ChunkingConfig" where
  "ChunkingConfig_init max_chars new_after combine_under ovl ovl_all multipage =
     Inr \<lparr> max_characters = max_chars,
           new_after_n_chars = new_after,
           combine_text_under_n_chars = combine_under,
           overlap = ovl,
           overlap_all = ovl_all,
           multipage_sections = multipage \<rparr>"

section \<open>chunking.py: elements read back from JSON\<close>

text \<open>
  \<^verbatim>\<open>ElementMetadata\<close>, the element classes and \<^verbatim>\<open>chunk_by_title\<close> belong to the
  \<^verbatim>\<open>unstructured\<close> library, not to this repository: what its constructors accept,
  what they store and what its chunker returns is the library's.  They are parameters
  of the model, collected in a record: \<open>'m\<close> is the type of the metadata objects
  and \<open>'e\<close> the type of the elements the library builds.  The constructors take
  their arguments in the order in which the source passes them by keyword:
  \<^verbatim>\<open>ElementMetadata(filename, filetype, languages, page_number, coordinates)\<close> and
  \<^verbatim>\<open>ElementClass(text, metadata)\<close>.  Each of the three may raise.
\<close>

datatype element_class = Title | NarrativeText | Text | ListItem | Table | CompositeElement

text \<open>
  A chunk as \<^verbatim>\<open>save_chunks\<close> reads it: the name of its class, its text, and of
  \<^verbatim>\<open>metadata.orig_elements\<close> the name of the class of each element, which is all
  \<^verbatim>\<open>save_chunks\<close> looks at.  The test
  \<^verbatim>\<open>hasattr(chunk.metadata, 'orig_elements') and chunk.metadata.orig_elements\<close> treats a
  missing attribute, \<^verbatim>\<open>None\<close> and the empty list alike, so all three are \<open>[]\<close>.
\<close>

record chunk =
  chunk_type :: string
  chunk_text :: string
  orig_elements :: "string list"

record ('m, 'e) unstructured =
  lib_ElementMetadata :: "json \<Rightarrow> json \<Rightarrow> json \<Rightarrow> json \<Rightarrow> json \<Rightarrow> error + 'm"
  lib_Element :: "element_class \<Rightarrow> json \<Rightarrow> 'm \<Rightarrow> error + 'e"
  lib_chunk_by_title ::
    "'e list \<Rightarrow> int \<Rightarrow> int \<Rightarrow> int \<Rightarrow> int \<Rightarrow> bool \<Rightarrow> bool \<Rightarrow> error + chunk list"

text \<open>\<^verbatim>\<open>dict.get(key, default)\<close>; without a default it gives \<^verbatim>\<open>None\<close>, here \<open>JNull\<close>.\<close>

definition dict_get :: "(string \<times> json) list \<Rightarrow> string \<Rightarrow> json \<Rightarrow> json" where
  "dict_get d k dflt = (case map_of d k of None \<Rightarrow> dflt | Some v \<Rightarrow> v)"

definition element_type_map :: "(string \<times> element_class) list" where
  "element_type_map =
     [(''Title'', Title),
      (''NarrativeText'', NarrativeText),
      (''UncategorizedText'', Text),
      (''ListItem'', ListItem),
      (''Table'', Table),
      (''CompositeElement'', CompositeElement),
      (''Text'', Text)]"

text \<open>
  \<^verbatim>\<open>element_type_map.get(element_type, NarrativeText)\<close>: a key that is a list or a dict
  is unhashable and raises \<^verbatim>\<open>TypeError\<close>; any other key that is not in the map gives
  the default.
\<close>

definition element_class_for :: "json \<Rightarrow> error + element_class" where
  "element_class_for element_type =
     (case element_type of
        JStr s \<Rightarrow> Inr (case map_of element_type_map s of None \<Rightarrow> NarrativeText | Some c \<Rightarrow> c)
      | JList _ \<Rightarrow> Inl TypeError
      | JObj _ \<Rightarrow> Inl TypeError
      | _ \<Rightarrow> Inr NarrativeText)"

text \<open>
  The body of the loop of \<^verbatim>\<open>json_to_elements\<close>, in the order of the source: the four
  \<^verbatim>\<open>item.get\<close>, the \<^verbatim>\<open>metadata_dict.get\<close> calls and the metadata constructor, the
  lookup of the class, the element constructor.  \<^verbatim>\<open>item.get\<close> and
  \<^verbatim>\<open>metadata_dict.get\<close> exist on dicts only: on anything else the attribute lookup
  raises \<^verbatim>\<open>AttributeError\<close>.
\<close>

definition element_of_item :: "('m, 'e) unstructured \<Rightarrow> json \<Rightarrow> error + 'e" where
  "element_of_item lib item =
     (case item of
        JObj d \<Rightarrow>
          (let element_type = dict_get d ''type'' JNull;
               text_value = dict_get d ''text'' (JStr []);
               metadata_dict = dict_get d ''metadata'' (JObj [])
           in case metadata_dict of
                JObj md \<Rightarrow>
                  (case lib_ElementMetadata lib
                          (dict_get md ''filename'' JNull)
                          (dict_get md ''filetype'' JNull)
                          (dict_get md ''languages'' (JList []))
                          (dict_get md ''page_number'' JNull)
                          (dict_get md ''coordinates'' JNull) of
                     Inl e \<Rightarrow> Inl e
                   | Inr metadata \<Rightarrow>
                       (case element_class_for element_type of
                          Inl e \<Rightarrow> Inl e
                        | Inr ElementClass \<Rightarrow> lib_Element lib ElementClass text_value metadata))
              | _ \<Rightarrow> Inl AttributeError)
      | _ \<Rightarrow> Inl AttributeError)"

fun elements_of_items :: "('m, 'e) unstructured \<Rightarrow> json list \<Rightarrow> error + 'e list" where
  "elements_of_items lib [] = Inr []"
| "elements_of_items lib (item # items) =
     (case element_of_item lib item of
        Inl e \<Rightarrow> Inl e
      | Inr el \<Rightarrow>
          (case elements_of_items lib items of
             Inl e \<Rightarrow> Inl e
           | Inr els \<Rightarrow> Inr (el # els)))"

text \<open>
  \<^verbatim>\<open>for item in json_data\<close>: a list gives its items, a dict its keys, a string its
  characters; a number or a boolean is not iterable.
\<close>

definition py_iter :: "json \<Rightarrow> error + json list" where
  "py_iter v =
     (case v of
        JList xs \<Rightarrow> Inr xs
      | JObj kvs \<Rightarrow> Inr (map (\<lambda>kv. JStr (fst kv)) kvs)
      | JStr s \<Rightarrow> Inr (map (\<lambda>c. JStr [c]) s)
      | _ \<Rightarrow> Inl TypeError)"

definition json_to_elements :: "('m, 'e) unstructured \<Rightarrow> json \<Rightarrow> error + 'e list" where
  "json_to_elements lib json_data =
     (case py_iter json_data of
        Inl e \<Rightarrow> Inl e
      | Inr items \<Rightarrow> elements_of_items lib items)"

text \<open>\<^verbatim>\<open>chunk_elements_by_title\<close> passes the six fields of the configuration on.\<close>

definition chunk_elements_by_title ::
  "('m, 'e) unstructured \<Rightarrow> 'e list \<Rightarrow> ChunkingConfig \<Rightarrow> error + chunk list" where
  "chunk_elements_by_title lib elements config =
     lib_chunk_by_title lib elements
       (max_characters config)
       (new_after_n_chars config)
       (combine_text_under_n_chars config)
       (overlap config)
       (overlap_all config)
       (multipage_sections config)"

section \<open>Paths\<close>

text \<open>
  A path is the list of its components.  \<^verbatim>\<open>name\<close>, \<^verbatim>\<open>suffix\<close>, \<^verbatim>\<open>stem\<close> and
  \<^verbatim>\<open>with_suffix\<close> follow \<^verbatim>\<open>pathlib\<close>: with \<open>i\<close> the index of the last dot of the
  name, the suffix is \<^verbatim>\<open>name[i:]\<close> and the stem \<^verbatim>\<open>name[:i]\<close> when
  \<^verbatim>\<open>0 < i < len(name) - 1\<close>; otherwise there is no suffix and the stem is the name.
\<close>

type_synonym path = "string list"

definition path_name :: "path \<Rightarrow> string" where
  "path_name p = (if p = [] then [] else last p)"

fun rfind_from :: "char \<Rightarrow> string \<Rightarrow> int \<Rightarrow> int \<Rightarrow> int" where
  "rfind_from c [] i r = r"
| "rfind_from c (x # xs) i r = rfind_from c xs (i + 1) (if x = c then i else r)"

definition rfind :: "string \<Rightarrow> char \<Rightarrow> int" where
  "rfind s c = rfind_from c s 0 (- 1)"

definition name_suffix :: "string \<Rightarrow> string" where
  "name_suffix name =
     (let i = rfind name CHR ''.''
      in if 0 < i \<and> i < int (length name) - 1 then drop (nat i) name else [])"

definition name_stem :: "string \<Rightarrow> string" where
  "name_stem name =
     (let i = rfind name CHR ''.''
      in if 0 < i \<and> i < int (length name) - 1 then take (nat i) name else name)"

definition path_stem :: "path \<Rightarrow> string" where
  "path_stem p = name_stem (path_name p)"

text \<open>
  \<^verbatim>\<open>with_suffix\<close> replaces the suffix of the name, or appends to a name that has none;
  a path with an empty name raises \<^verbatim>\<open>ValueError\<close>.  Both calls in the source pass a
  well-formed suffix.
\<close>

definition with_suffix :: "path \<Rightarrow> string \<Rightarrow> error + path" where
  "with_suffix p suffix =
     (let name = path_name p
      in if name = [] then Inl ValueError
         else Inr (butlast p @
                   [take (length name - length (name_suffix name)) name @ suffix]))"

definition path_str :: "path \<Rightarrow> string" where
  "path_str p = concat (map (\<lambda>c. CHR ''/'' # c) p)"

section \<open>Files, the log and the clock\<close>

text \<open>
  The state the scripts act on.  A file holds either text or one JSON document:
  \<open>JsonFile v\<close> stands for the complete text \<^verbatim>\<open>json.dump\<close> writes for \<open>v\<close>,
  which \<^verbatim>\<open>json.load\<close> reads back as \<open>v\<close>; a \<open>TextFile\<close> holds any other text
  (the empty file that \<^verbatim>\<open>open(..., 'w')\<close> leaves, a JSON text that was cut short,
  the readable rendering).  \<open>logged\<close> is what the logger has received, oldest first.
  \<open>clock\<close> counts the calls of \<^verbatim>\<open>datetime.now()\<close>.

  \<open>fault\<close> is the environment's part in a failed write.  Writing proceeds in steps:
  opening a file for writing is one step, and so is each character that reaches the
  open file.  \<open>Some n\<close> means that \<open>n\<close> more steps succeed and the next one fails
  with \<^verbatim>\<open>OSError\<close>; \<open>None\<close> means that none fails.  The characters that reached
  the file before the failure stay in it.

  \<open>exception_text\<close> is \<^verbatim>\<open>str(e)\<close> for the exception \<open>e\<close> raised while the given
  file is processed: the wording of an exception is the interpreter's or a library's,
  so it belongs to the environment.
\<close>

datatype fdata = TextFile string | JsonFile json

datatype level = INFO | WARNING | ERROR

record world =
  files :: "path \<Rightarrow> fdata option"
  logged :: "(level \<times> string) list"
  fault :: "nat option"
  clock :: nat
  exception_text :: "path \<Rightarrow> error \<Rightarrow> string"

definition logger_info :: "string \<Rightarrow> world \<Rightarrow> world" where
  "logger_info msg w = w\<lparr>logged := logged w @ [(INFO, msg)]\<rparr>"

definition logger_warning :: "string \<Rightarrow> world \<Rightarrow> world" where
  "logger_warning msg w = w\<lparr>logged := logged w @ [(WARNING, msg)]\<rparr>"

definition logger_error :: "string \<Rightarrow> world \<Rightarrow> world" where
  "logger_error msg w = w\<lparr>logged := logged w @ [(ERROR, msg)]\<rparr>"

text \<open>\<^verbatim>\<open>open(p, 'w')\<close> creates the file or truncates the one that is there.\<close>

definition open_w :: "path \<Rightarrow> world \<Rightarrow> error option \<times> world" where
  "open_w p w =
     (case fault w of
        None \<Rightarrow> (None, w\<lparr>files := (files w)(p \<mapsto> TextFile [])\<rparr>)
      | Some 0 \<Rightarrow> (Some OSError, w\<lparr>fault := None\<rparr>)
      | Some (Suc n) \<Rightarrow> (None, w\<lparr>files := (files w)(p \<mapsto> TextFile []), fault := Some n\<rparr>))"

text \<open>
  What an open text file holds so far, and \<^verbatim>\<open>f.write(s)\<close>.  The file is buffered, so
  the error of a failed transfer may surface at a later \<^verbatim>\<open>f.write\<close> or when the
  \<^verbatim>\<open>with\<close> block closes the file.  The blocks of \<^verbatim>\<open>save_chunks\<close> do nothing but
  write, so all that can be observed is what the file holds afterwards and that the
  block raised; the model raises at the write whose characters did not all reach the
  file.
\<close>

definition written :: "path \<Rightarrow> world \<Rightarrow> string" where
  "written p w = (case files w p of Some (TextFile t) \<Rightarrow> t | _ \<Rightarrow> [])"

definition f_write :: "path \<Rightarrow> string \<Rightarrow> world \<Rightarrow> error option \<times> world" where
  "f_write p s w =
     (case fault w of
        None \<Rightarrow> (None, w\<lparr>files := (files w)(p \<mapsto> TextFile (written p w @ s))\<rparr>)
      | Some n \<Rightarrow>
          if length s \<le> n
          then (None, w\<lparr>files := (files w)(p \<mapsto> TextFile (written p w @ s)),
                        fault := Some (n - length s)\<rparr>)
          else (Some OSError, w\<lparr>files := (files w)(p \<mapsto> TextFile (written p w @ take n s)),
                                fault := None\<rparr>))"

text \<open>The \<^verbatim>\<open>f.write\<close> calls of a block, in order; the first that raises ends the block.\<close>

fun write_all :: "path \<Rightarrow> string list \<Rightarrow> world \<Rightarrow> error option \<times> world" where
  "write_all p [] w = (None, w)"
| "write_all p (s # ss) w =
     (case f_write p s w of
        (None, w') \<Rightarrow> write_all p ss w'
      | (Some e, w') \<Rightarrow> (Some e, w'))"

text \<open>
  The text of \<^verbatim>\<open>json.dump(v, f, indent=2, ensure_ascii=False)\<close>.  A string is put
  between double quotes, with the backslash, the double quote and the control
  characters below 32 escaped and every other character as it is.  A non-empty list or
  dict puts each item on a line of its own, indented by two spaces per level, with
  \<open>,\<close> between items and \<open>: \<close> after a key; an empty one is \<open>[]\<close> or \<open>{}\<close>.
\<close>

definition hex_digit :: "nat \<Rightarrow> char" where
  "hex_digit d = ''0123456789abcdef'' ! d"

definition escape_char :: "char \<Rightarrow> string" where
  "escape_char c =
     (let n = (of_char c :: nat)
      in if n = 0x22 then [CHR 0x5C, CHR 0x22]
         else if n = 0x5C then [CHR 0x5C, CHR 0x5C]
         else if n = 0x08 then [CHR 0x5C, CHR ''b'']
         else if n = 0x0C then [CHR 0x5C, CHR ''f'']
         else if n = 0x0A then [CHR 0x5C, CHR ''n'']
         else if n = 0x0D then [CHR 0x5C, CHR ''r'']
         else if n = 0x09 then [CHR 0x5C, CHR ''t'']
         else if n < 0x20
           then [CHR 0x5C, CHR ''u'', CHR ''0'', CHR ''0'', hex_digit (n div 16), hex_digit (n mod 16)]
         else [c])"

definition encode_basestring :: "string \<Rightarrow> string" where
  "encode_basestring s = [CHR 0x22] @ concat (map escape_char s) @ [CHR 0x22]"

definition newline_indent :: "nat \<Rightarrow> string" where
  "newline_indent lvl = CHR 0x0A # replicate (2 * lvl) CHR '' ''"

fun join :: "string \<Rightarrow> string list \<Rightarrow> string" where
  "join sep [] = []"
| "join sep [x] = x"
| "join sep (x # y # ys) = x @ sep @ join sep (y # ys)"

fun json_text :: "nat \<Rightarrow> json \<Rightarrow> string"
  and json_items :: "nat \<Rightarrow> json list \<Rightarrow> string list"
  and json_pairs :: "nat \<Rightarrow> (string \<times> json) list \<Rightarrow> string list" where
  "json_text lvl JNull = ''null''"
| "json_text lvl (JBool b) = (if b then ''true'' else ''false'')"
| "json_text lvl (JInt i) = str_int i"
| "json_text lvl (JStr s) = encode_basestring s"
| "json_text lvl (JList xs) =
     (if xs = [] then ''[]''
      else ''['' @ newline_indent (lvl + 1)
           @ join ('','' @ newline_indent (lvl + 1)) (json_items (lvl + 1) xs)
           @ newline_indent lvl @ '']'')"
| "json_text lvl (JObj kvs) =
     (if kvs = [] then ''{}''
      else ''{'' @ newline_indent (lvl + 1)
           @ join ('','' @ newline_indent (lvl + 1)) (json_pairs (lvl + 1) kvs)
           @ newline_indent lvl @ ''}'')"
| "json_items lvl [] = []"
| "json_items lvl (x # xs) = json_text lvl x # json_items lvl xs"
| "json_pairs lvl [] = []"
| "json_pairs lvl (kv # kvs) =
     (encode_basestring (fst kv) @ '': '' @ json_text lvl (snd kv)) # json_pairs lvl kvs"

text \<open>
  \<^verbatim>\<open>json.dump(v, f, ...)\<close> writes that text to the open file piece by piece.  When
  all of it has reached the file, the file is the JSON document \<open>v\<close>; otherwise it
  holds the characters that did.  (\<^verbatim>\<open>save_chunks\<close> dumps a list, and the text of a
  list that is cut short is not a JSON document.)
\<close>

definition json_dump :: "json \<Rightarrow> path \<Rightarrow> world \<Rightarrow> error option \<times> world" where
  "json_dump v p w =
     (case f_write p (json_text 0 v) w of
        (None, w') \<Rightarrow> (None, w'\<lparr>files := (files w')(p \<mapsto> JsonFile v)\<rparr>)
      | (Some e, w') \<Rightarrow> (Some e, w'))"

text \<open>\<^verbatim>\<open>open(p, 'r')\<close> followed by \<^verbatim>\<open>json.load\<close>.\<close>

definition read_json :: "path \<Rightarrow> world \<Rightarrow> error + json" where
  "read_json p w =
     (case files w p of
        None \<Rightarrow> Inl FileNotFoundError
      | Some (TextFile t) \<Rightarrow> Inl JSONDecodeError
      | Some (JsonFile v) \<Rightarrow> Inr v)"

section \<open>chunking.py: save\_chunks\<close>

text \<open>
  \<^verbatim>\<open>len(chunk.text.split())\<close>: the number of maximal runs of characters that are not
  whitespace.  Characters are read as code points below 256.
\<close>

definition is_space :: "char \<Rightarrow> bool" where
  "is_space c = ((of_char c :: nat) \<in> {9, 10, 11, 12, 13, 28, 29, 30, 31, 32, 133, 160})"

fun count_words :: "bool \<Rightarrow> string \<Rightarrow> nat" where
  "count_words in_word [] = 0"
| "count_words in_word (c # cs) =
     (if is_space c then count_words False cs
      else (if in_word then 0 else 1) + count_words True cs)"

definition word_count :: "string \<Rightarrow> nat" where
  "word_count s = count_words False s"

text \<open>
  The record of chunk number \<open>i\<close> (counted from 0, as \<^verbatim>\<open>enumerate\<close> does);
  \<open>now t\<close> is the text \<^verbatim>\<open>datetime.now().isoformat()\<close> gives at its call number
  \<open>t\<close>.
\<close>

definition chunk_data :: "(nat \<Rightarrow> string) \<Rightarrow> string \<Rightarrow> nat \<Rightarrow> nat \<Rightarrow> chunk \<Rightarrow> json" where
  "chunk_data now original_filename t i chunk =
     JObj [(''chunk_id'', JInt (int i + 1)),
           (''text'', JStr (chunk_text chunk)),
           (''type'', JStr (chunk_type chunk)),
           (''metadata'', JObj (
              [(''original_filename'', JStr original_filename),
               (''chunk_index'', JInt (int i + 1)),
               (''character_count'', JInt (int (length (chunk_text chunk)))),
               (''word_count'', JInt (int (word_count (chunk_text chunk)))),
               (''created_at'', JStr (now t))]
              @ (if orig_elements chunk \<noteq> []
                 then [(''original_elements_count'', JInt (int (length (orig_elements chunk)))),
                       (''original_element_types'',
                          JList (map (\<lambda>elem_class_name. JStr elem_class_name)
                                   (orig_elements chunk)))]
                 else [])))]"

definition json_records :: "(nat \<Rightarrow> string) \<Rightarrow> string \<Rightarrow> nat \<Rightarrow> chunk list \<Rightarrow> json list" where
  "json_records now original_filename t chunks =
     map (\<lambda>(i, chunk). chunk_data now original_filename (t + i) i chunk) (enumerate 0 chunks)"

text \<open>The strings the second \<^verbatim>\<open>with\<close> block writes, one per \<^verbatim>\<open>f.write\<close>.\<close>

definition txt_header :: "string \<Rightarrow> string list" where
  "txt_header original_filename =
     [''CHUNKED DOCUMENT: '' @ original_filename @ NL,
      replicate 80 CHR ''='' @ NL @ NL]"

definition txt_chunk :: "nat \<Rightarrow> chunk \<Rightarrow> string list" where
  "txt_chunk i chunk =
     [''CHUNK '' @ str_nat (i + 1) @ NL,
      replicate 40 CHR ''-'' @ NL,
      ''Characters: '' @ str_nat (length (chunk_text chunk)) @ NL,
      ''Words: '' @ str_nat (word_count (chunk_text chunk)) @ NL,
      ''Type: '' @ chunk_type chunk @ NL @ NL,
      chunk_text chunk,
      NL @ NL @ replicate 80 CHR ''='' @ NL @ NL]"

definition txt_writes :: "string \<Rightarrow> chunk list \<Rightarrow> string list" where
  "txt_writes original_filename chunks =
     txt_header original_filename
     @ concat (map (\<lambda>(i, chunk). txt_chunk i chunk) (enumerate 0 chunks))"

text \<open>
  \<^verbatim>\<open>save_chunks\<close>: all records are built first; then the JSON file is opened and
  written, then the text file.  Each file is written in place, under its final name.
\<close>

definition save_chunks ::
  "(nat \<Rightarrow> string) \<Rightarrow> chunk list \<Rightarrow> path \<Rightarrow> string \<Rightarrow> world \<Rightarrow> error option \<times> world" where
  "save_chunks now chunks output_file original_filename w =
     (let json_output = json_records now original_filename (clock w) chunks;
          w1 = w\<lparr>clock := clock w + length chunks\<rparr>
      in case with_suffix output_file ''.chunks.json'' of
           Inl e \<Rightarrow> (Some e, w1)
         | Inr json_file \<Rightarrow>
             (case open_w json_file w1 of
                (Some e, w2) \<Rightarrow> (Some e, w2)
              | (None, w2) \<Rightarrow>
                  (case json_dump (JList json_output) json_file w2 of
                     (Some e, w3) \<Rightarrow> (Some e, w3)
                   | (None, w3) \<Rightarrow>
                       (case with_suffix output_file ''.chunks.txt'' of
                          Inl e \<Rightarrow> (Some e, w3)
                        | Inr txt_file \<Rightarrow>
                            (case open_w txt_file w3 of
                               (Some e, w4) \<Rightarrow> (Some e, w4)
                             | (None, w4) \<Rightarrow>
                                 write_all txt_file
                                   (txt_writes original_filename chunks) w4)))))"

section \<open>chunking.py: process\_file and main\<close>

text \<open>
  The \<^verbatim>\<open>except Exception\<close> handler of \<^verbatim>\<open>process_file\<close>: it logs
  \<^verbatim>\<open>f"Error processing {input_file.name}: {str(e)}"\<close> and returns False.
\<close>

definition process_failed :: "path \<Rightarrow> error \<Rightarrow> world \<Rightarrow> bool \<times> world" where
  "process_failed input_file e w =
     (False, logger_error (''Error processing '' @ path_name input_file @ '': ''
                             @ exception_text w input_file e) w)"

definition process_file ::
  "('m, 'e) unstructured \<Rightarrow> (nat \<Rightarrow> string) \<Rightarrow> path \<Rightarrow> path \<Rightarrow> ChunkingConfig \<Rightarrow> world
     \<Rightarrow> bool \<times> world" where
  "process_file lib now input_file output_dir config w =
     (let w1 = logger_info (''Processing file: '' @ path_name input_file) w
      in case read_json input_file w1 of
           Inl e \<Rightarrow> process_failed input_file e w1
         | Inr json_data \<Rightarrow>
             if \<not> truthy json_data
             then (False, logger_warning (''Empty JSON file: '' @ path_name input_file) w1)
             else
               (case json_to_elements lib json_data of
                  Inl e \<Rightarrow> process_failed input_file e w1
                | Inr elements \<Rightarrow>
                    (let w2 = logger_info
                                (''Converted '' @ str_nat (length elements) @ '' elements from JSON'') w1
                     in case chunk_elements_by_title lib elements config of
                          Inl e \<Rightarrow> process_failed input_file e w2
                        | Inr chunks \<Rightarrow>
                            (let w3 = logger_info
                                        (''Created '' @ str_nat (length chunks) @ '' chunks'') w2;
                                 output_file = output_dir @ [path_stem input_file]
                             in case save_chunks now chunks output_file (path_name input_file) w3 of
                                  (Some e, w4) \<Rightarrow> process_failed input_file e w4
                                | (None, w4) \<Rightarrow>
                                    (True, logger_info
                                             (''Saved chunks for '' @ path_name input_file) w4)))))"

text \<open>The loop of \<^verbatim>\<open>main\<close> over the files, with its counter.\<close>

fun process_files ::
  "('m, 'e) unstructured \<Rightarrow> (nat \<Rightarrow> string) \<Rightarrow> path list \<Rightarrow> path \<Rightarrow> ChunkingConfig \<Rightarrow> nat
     \<Rightarrow> world \<Rightarrow> nat \<times> world" where
  "process_files lib now [] output_dir config success_count w = (success_count, w)"
| "process_files lib now (json_file # rest) output_dir config success_count w =
     (case process_file lib now json_file output_dir config w of
        (ok, w') \<Rightarrow>
          process_files lib now rest output_dir config
            (if ok then success_count + 1 else success_count) w')"

text \<open>
  \<^verbatim>\<open>main\<close>, with the directory of the script and the result of
  \<^verbatim>\<open>input_dir.glob('*.json')\<close> as arguments.  Directories are not part of the state, so
  \<^verbatim>\<open>output_dir.mkdir(exist_ok=True)\<close> leaves it as it is.
\<close>

definition completion_message :: "nat \<Rightarrow> nat \<Rightarrow> string" where
  "completion_message success_count n_files =
     ''Chunking complete! Processed '' @ str_nat success_count @ ''/'' @ str_nat n_files
       @ '' files successfully''"

definition main ::
  "('m, 'e) unstructured \<Rightarrow> (nat \<Rightarrow> string) \<Rightarrow> path \<Rightarrow> path list \<Rightarrow> world \<Rightarrow> world" where
  "main lib now current_dir json_files w =
     (let w1 = logger_info ''Starting chunking process'' w;
          input_dir = current_dir @ [''output''];
          output_dir = current_dir @ [''chunked_output'']
      in case ChunkingConfig_init 1000 800 200 50 False True of
           Inl e \<Rightarrow> w1
         | Inr config \<Rightarrow>
             (let w2 = logger_info
                         (''Configuration: max_chars='' @ str_int (max_characters config)
                            @ '', new_after='' @ str_int (new_after_n_chars config)
                            @ '', combine_under='' @ str_int (combine_text_under_n_chars config)) w1
              in if json_files = []
                 then logger_error (''No JSON files found in '' @ path_str input_dir) w2
                 else
                   (let w3 = logger_info
                               (''Found '' @ str_nat (length json_files) @ '' JSON files to process'') w2
                    in case process_files lib now json_files output_dir config 0 w3 of
                         (success_count, w4) \<Rightarrow>
                           logger_info (''Output saved to: '' @ path_str output_dir)
                             (logger_info
                                (completion_message success_count (length json_files)) w4))))"

section \<open>A library to run examples with\<close>

text \<open>
  The theorems below hold for every library.  To run the code on a concrete input, a
  library is needed: the constructors of this one accept every argument and store it,
  and its chunker returns no chunk for no element and otherwise one chunk of class
  \<^verbatim>\<open>CompositeElement\<close>, whose text joins the texts of the elements with a blank
  line.  \<open>class_name\<close> is \<^verbatim>\<open>__class__.__name__\<close> of an element of the class.
\<close>

fun class_name :: "element_class \<Rightarrow> string" where
  "class_name Title = ''Title''"
| "class_name NarrativeText = ''NarrativeText''"
| "class_name Text = ''Text''"
| "class_name ListItem = ''ListItem''"
| "class_name Table = ''Table''"
| "class_name CompositeElement = ''CompositeElement''"

type_synonym example_metadata = "json \<times> json \<times> json \<times> json \<times> json"

type_synonym example_element = "element_class \<times> json \<times> example_metadata"

definition example_text :: "example_element \<Rightarrow> string" where
  "example_text el = (case fst (snd el) of JStr t \<Rightarrow> t | _ \<Rightarrow> [])"

definition example_library :: "(example_metadata, example_element) unstructured" where
  "example_library =
     \<lparr> lib_ElementMetadata = (\<lambda>fname ftype langs page coords.
                                Inr (fname, ftype, langs, page, coords)),
       lib_Element = (\<lambda>cls txt md. Inr (cls, txt, md)),
       lib_chunk_by_title = (\<lambda>els max_chars new_after combine_under ovl ovl_all multipage.
          if els = [] then Inr []
          else Inr [\<lparr> chunk_type = ''CompositeElement'',
                      chunk_text = join (NL @ NL) (map example_text els),
                      orig_elements = map (\<lambda>el. class_name (fst el)) els \<rparr>]) \<rparr>"

section \<open>Reading the log\<close>

text \<open>
  What a reader of the log sees of a batch: the files that were started (the entries
  "Processing file: name") and the outcome entries, one
  "Saved chunks for name" for a file that succeeded, and one
  "Error processing name: ..." or "Empty JSON file: name" for a file that did not.
  Each of the four fixed texts is 17 characters long.
\<close>

definition attempted :: "(level \<times> string) list \<Rightarrow> string list" where
  "attempted lg =
     map (\<lambda>e. drop 17 (snd e))
       (filter (\<lambda>e. fst e = INFO \<and> take 17 (snd e) = ''Processing file: '') lg)"

definition outcome_of :: "level \<times> string \<Rightarrow> bool option" where
  "outcome_of e =
     (case fst e of
        INFO \<Rightarrow> if take 17 (snd e) = ''Saved chunks for '' then Some True else None
      | WARNING \<Rightarrow> if take 17 (snd e) = ''Empty JSON file: '' then Some False else None
      | ERROR \<Rightarrow> if take 17 (snd e) = ''Error processing '' then Some False else None)"

definition outcomes :: "(level \<times> string) list \<Rightarrow> bool list" where
  "outcomes lg = List.map_filter outcome_of lg"

section \<open>setupLangchain.py: load\_chunked\_files\<close>

record document =
  page_content :: string
  doc_metadata :: "(string \<times> json) list"

text \<open>
  \<^verbatim>\<open>Document\<close> is the class of \<^verbatim>\<open>langchain_core\<close>, with \<^verbatim>\<open>page_content: str\<close>: a text
  that is not a string is refused when the document is built.

  The body of the inner loop: \<^verbatim>\<open>chunk.get\<close> and \<^verbatim>\<open>metadata.get\<close> need dicts,
  \<^verbatim>\<open>chunk['text']\<close> raises \<^verbatim>\<open>KeyError\<close> when the key is missing.
\<close>

definition document_of_chunk :: "path \<Rightarrow> json \<Rightarrow> error + document" where
  "document_of_chunk json_file chunk =
     (case chunk of
        JObj c \<Rightarrow>
          (case dict_get c ''metadata'' (JObj []) of
             JObj metadata \<Rightarrow>
               (let metadata1 = AList.update ''source''
                                  (dict_get metadata ''original_filename''
                                     (JStr (path_stem json_file)))
                                  metadata;
                    metadata2 = (if map_of metadata1 ''languages'' \<noteq> None
                                 then AList.delete ''languages'' metadata1
                                 else metadata1)
                in case map_of c ''text'' of
                     None \<Rightarrow> Inl KeyError
                   | Some (JStr t) \<Rightarrow> Inr \<lparr> page_content = t, doc_metadata = metadata2 \<rparr>
                   | Some _ \<Rightarrow> Inl ValidationError)
           | _ \<Rightarrow> Inl AttributeError)
      | _ \<Rightarrow> Inl AttributeError)"

fun documents_of_chunks :: "path \<Rightarrow> json list \<Rightarrow> error + document list" where
  "documents_of_chunks json_file [] = Inr []"
| "documents_of_chunks json_file (chunk # chunks) =
     (case document_of_chunk json_file chunk of
        Inl e \<Rightarrow> Inl e
      | Inr doc \<Rightarrow>
          (case documents_of_chunks json_file chunks of
             Inl e \<Rightarrow> Inl e
           | Inr docs \<Rightarrow> Inr (doc # docs)))"

definition load_chunked_file :: "path \<Rightarrow> world \<Rightarrow> error + document list" where
  "load_chunked_file json_file w =
     (case read_json json_file w of
        Inl e \<Rightarrow> Inl e
      | Inr chunks \<Rightarrow>
          (case py_iter chunks of
             Inl e \<Rightarrow> Inl e
           | Inr cs \<Rightarrow> documents_of_chunks json_file cs))"

text \<open>
  \<^verbatim>\<open>load_chunked_files\<close>, over the result of \<^verbatim>\<open>chunked_dir.glob('*.chunks.json')\<close>.
  There is no handler: the first exception ends the call.
\<close>

fun load_chunked_files :: "path list \<Rightarrow> world \<Rightarrow> error + document list" where
  "load_chunked_files [] w = Inr []"
| "load_chunked_files (json_file # rest) w =
     (case load_chunked_file json_file w of
        Inl e \<Rightarrow> Inl e
      | Inr docs \<Rightarrow>
          (case load_chunked_files rest w of
             Inl e \<Rightarrow> Inl e
           | Inr others \<Rightarrow> Inr (docs @ others)))"

section \<open>query.py and setupRAG.py: the source preview\<close>

text \<open>
  Both files define \<^verbatim>\<open>ask_question\<close> with the same loop over the retrieved documents:
  \<^verbatim>\<open>preview = doc.page_content[:100] + "..." if len(doc.page_content) > 100 else doc.page_content\<close>.
  The conditional expression binds weaker than \<^verbatim>\<open>+\<close>, so the dots belong to the
  first branch only.
\<close>

definition preview :: "document \<Rightarrow> string" where
  "preview doc =
     (if length (page_content doc) > 100
      then take 100 (page_content doc) @ ''...''
      else page_content doc)"

text \<open>\<^verbatim>\<open>doc.metadata.get('source', 'Unknown')\<close>: the stored value, of whatever type.\<close>

definition doc_source :: "document \<Rightarrow> json" where
  "doc_source doc =
     (case map_of (doc_metadata doc) ''source'' of
        None \<Rightarrow> JStr ''Unknown''
      | Some v \<Rightarrow> v)"

text \<open>The entry of one retrieved document: its source and its preview.\<close>

definition source_entry :: "document \<Rightarrow> json \<times> string" where
  "source_entry doc = (doc_source doc, preview doc)"

definition source_entries :: "document list \<Rightarrow> (nat \<times> json \<times> string) list" where
  "source_entries docs = zip [1..<Suc (length docs)] (map source_entry docs)"

section \<open>Source preview: theorems\<close>

text \<open>
  C9. For every retrieved document, the preview in its source entry is the first 100
  characters of the document's text, followed by "..." exactly when the text is longer
  than 100 characters; a text of at most 100 characters is shown whole with nothing
  appended.  The listing has one entry for each retrieved document, in their order and
  numbered from 1, and the entry of a document is its source with this preview.
\<close>

theorem preview_first_100:
  "snd (source_entry doc) =
     take 100 (page_content doc) @ (if length (page_content doc) > 100 then ''...'' else '''')
   \<and> (length (page_content doc) \<le> 100 \<longrightarrow> snd (source_entry doc) = page_content doc)
   \<and> map snd (source_entries docs) = map source_entry docs
   \<and> map fst (source_entries docs) = [1..<Suc (length docs)]"
proof -
  have a: "snd (source_entry doc) =
     take 100 (page_content doc) @ (if length (page_content doc) > 100 then ''...'' else '''')"
    by (simp add: source_entry_def preview_def)
  have b: "length (page_content doc) \<le> 100 \<longrightarrow> snd (source_entry doc) = page_content doc"
    by (simp add: source_entry_def preview_def)
  have len: "length [1..<Suc (length docs)] = length (map source_entry docs)"
    by (simp del: upt_Suc)
  have c: "map snd (source_entries docs) = map source_entry docs"
    unfolding source_entries_def using len by (rule map_snd_zip)
  have d: "map fst (source_entries docs) = [1..<Suc (length docs)]"
    unfolding source_entries_def using len by (rule map_fst_zip)
  from a b c d show ?thesis by (intro conjI)
qed

theorem preview_first_100_witness:
  "snd (source_entry \<lparr>page_content = replicate 101 CHR ''a'', doc_metadata = []\<rparr>)
     = replicate 100 CHR ''a'' @ ''...''
   \<and> snd (source_entry \<lparr>page_content = ''short text'', doc_metadata = []\<rparr>) = ''short text''
   \<and> source_entries [\<lparr>page_content = replicate 101 CHR ''a'', doc_metadata = []\<rparr>,
                      \<lparr>page_content = ''short text'',
                        doc_metadata = [(''source'', JStr ''doc.pdf.json'')]\<rparr>]
       = [(1, JStr ''Unknown'', replicate 100 CHR ''a'' @ ''...''),
          (2, JStr ''doc.pdf.json'', ''short text'')]"
proof -
  have a: "snd (source_entry \<lparr>page_content = replicate 101 CHR ''a'', doc_metadata = []\<rparr>)
     = replicate 100 CHR ''a'' @ ''...''"
    using preview_first_100 [of "\<lparr>page_content = replicate 101 CHR ''a'', doc_metadata = []\<rparr>" "[]"]
    by simp
  have b: "snd (source_entry \<lparr>page_content = ''short text'', doc_metadata = []\<rparr>) = ''short text''"
    using preview_first_100 [of "\<lparr>page_content = ''short text'', doc_metadata = []\<rparr>" "[]"]
    by simp
  have c: "source_entries [\<lparr>page_content = replicate 101 CHR ''a'', doc_metadata = []\<rparr>,
                      \<lparr>page_content = ''short text'',
                        doc_metadata = [(''source'', JStr ''doc.pdf.json'')]\<rparr>]
       = [(1, JStr ''Unknown'', replicate 100 CHR ''a'' @ ''...''),
          (2, JStr ''doc.pdf.json'', ''short text'')]"
    by (simp add: source_entries_def source_entry_def preview_def doc_source_def)
  from a b c show ?thesis by (intro conjI)
qed

section \<open>Configuration: theorems\<close>

text \<open>
  C2 (as the code has it). Constructing a chunking configuration never fails: for every
  combination of parameters, also with overlap at least max_characters and with zero or
  negative size thresholds, the constructor returns a configuration that holds the six
  values unchanged.
\<close>

theorem ChunkingConfig_init_total:
  "ChunkingConfig_init mc na cu ov oa mp =
     Inr \<lparr> max_characters = mc, new_after_n_chars = na, combine_text_under_n_chars = cu,
           overlap = ov, overlap_all = oa, multipage_sections = mp \<rparr>"
  by (simp add: ChunkingConfig_init_def)

text \<open>
  C2 as stated fails: overlap 1000 with max_characters 10, and thresholds 0 and -5, are
  accepted.
\<close>

theorem ChunkingConfig_invalid_accepted_counterexample:
  "ChunkingConfig_init 10 800 200 1000 False True =
     Inr \<lparr> max_characters = 10, new_after_n_chars = 800, combine_text_under_n_chars = 200,
           overlap = 1000, overlap_all = False, multipage_sections = True \<rparr>
   \<and> ChunkingConfig_init 0 (- 5) 0 50 False True =
     Inr \<lparr> max_characters = 0, new_after_n_chars = - 5, combine_text_under_n_chars = 0,
           overlap = 50, overlap_all = False, multipage_sections = True \<rparr>"
  by (simp add: ChunkingConfig_init_def)

section \<open>Evaluation on concrete inputs\<close>

text \<open>The defining equations that a run on a concrete input unfolds.\<close>

lemma replicate_numeral: "replicate (numeral k) x = x # replicate (pred_numeral k) x"
  by (simp add: numeral_eq_Suc)

lemmas run_defs =
  main_def ChunkingConfig_init_def process_file_def process_failed_def read_json_def
  json_to_elements_def py_iter_def element_of_item_def element_class_for_def
  element_type_map_def dict_get_def chunk_elements_by_title_def save_chunks_def Let_def
  with_suffix_def path_name_def path_stem_def name_stem_def name_suffix_def rfind_def
  open_w_def json_dump_def f_write_def written_def txt_writes_def txt_header_def
  txt_chunk_def json_records_def chunk_data_def enumerate_eq_zip
  logger_info_def logger_error_def logger_warning_def completion_message_def
  str_int_def str_nat.simps digit_char_def path_str_def word_count_def is_space_def NL_def
  example_library_def example_text_def encode_basestring_def escape_char_def
  newline_indent_def hex_digit_def replicate_numeral

section \<open>What writing leaves in the files\<close>

text \<open>
  Opening a file for writing either succeeds and leaves the file empty, or raises and
  leaves every file as it was.  A write appends the characters that reached the file:
  all of its string when it succeeds, fewer when it raises.  None of them touches the
  log or the wording of exceptions.
\<close>

lemma open_w_effect:
  "open_w p w = (r, w') \<Longrightarrow>
     logged w' = logged w \<and> exception_text w' = exception_text w
     \<and> (r = None \<longrightarrow> files w' = (files w)(p \<mapsto> TextFile []))
     \<and> (r \<noteq> None \<longrightarrow> files w' = files w)"
  by (auto simp add: open_w_def split: option.splits nat.splits)

lemma f_write_effect:
  "f_write p s w = (r, w') \<Longrightarrow>
     logged w' = logged w \<and> exception_text w' = exception_text w
     \<and> (\<exists>k \<le> length s.
            files w' = (files w)(p \<mapsto> TextFile (written p w @ take k s))
            \<and> (r = None \<longrightarrow> k = length s)
            \<and> (r \<noteq> None \<longrightarrow> k < length s))"
proof (cases "fault w")
  case None
  assume "f_write p s w = (r, w')"
  with None have "r = None" and "w' = w\<lparr>files := (files w)(p \<mapsto> TextFile (written p w @ s))\<rparr>"
    by (simp_all add: f_write_def)
  then show ?thesis by (intro conjI exI [of _ "length s"]) simp_all
next
  case (Some n)
  assume fw: "f_write p s w = (r, w')"
  show ?thesis
  proof (cases "length s \<le> n")
    case True
    with Some fw have "r = None"
      and "w' = w\<lparr>files := (files w)(p \<mapsto> TextFile (written p w @ s)),
                  fault := Some (n - length s)\<rparr>"
      by (simp_all add: f_write_def)
    then show ?thesis by (intro conjI exI [of _ "length s"]) simp_all
  next
    case False
    with Some fw have "r = Some OSError"
      and "w' = w\<lparr>files := (files w)(p \<mapsto> TextFile (written p w @ take n s)),
                  fault := None\<rparr>"
      by (simp_all add: f_write_def)
    with False show ?thesis by (intro conjI exI [of _ n]) simp_all
  qed
qed

lemma write_all_Nil: "write_all p [] w = (r, w') \<Longrightarrow> r = None \<and> w' = w"
  by simp

lemma write_all_Cons_ok:
  "f_write p s w = (None, w1) \<Longrightarrow> write_all p (s # ss) w = write_all p ss w1"
  by simp

lemma write_all_Cons_fail:
  "f_write p s w = (Some e, w1) \<Longrightarrow> write_all p (s # ss) w = (Some e, w1)"
  by simp

text \<open>
  A block of \<^verbatim>\<open>f.write\<close> calls on an open file leaves what the file held, followed
  by the first \<open>k\<close> characters of what the block set out to write: all of them when
  the block succeeds, fewer when it raises.
\<close>

lemma write_all_effect:
  "files w p = Some (TextFile t) \<Longrightarrow> write_all p ss w = (r, w') \<Longrightarrow>
     logged w' = logged w \<and> exception_text w' = exception_text w
     \<and> (\<exists>k \<le> length (concat ss).
            files w' = (files w)(p \<mapsto> TextFile (t @ take k (concat ss)))
            \<and> (r = None \<longrightarrow> k = length (concat ss))
            \<and> (r \<noteq> None \<longrightarrow> k < length (concat ss)))"
proof (induction ss arbitrary: w t)
  case Nil
  from write_all_Nil [OF Nil.prems(2)] have r: "r = None" and w: "w' = w" by simp_all
  have "(files w)(p \<mapsto> TextFile t) = files w"
    using Nil.prems(1) by (simp add: fun_upd_idem)
  with r w show ?case by simp
next
  case (Cons s ss)
  obtain r1 w1 where fw: "f_write p s w = (r1, w1)" by (cases "f_write p s w")
  have wr: "written p w = t" using Cons.prems(1) by (simp add: written_def)
  from f_write_effect [OF fw] wr obtain k1 where
    lg1: "logged w1 = logged w" and ex1: "exception_text w1 = exception_text w"
    and k1: "k1 \<le> length s"
    and f1: "files w1 = (files w)(p \<mapsto> TextFile (t @ take k1 s))"
    and ok1: "r1 = None \<longrightarrow> k1 = length s"
    and no1: "r1 \<noteq> None \<longrightarrow> k1 < length s"
    by (elim exE conjE) simp
  show ?case
  proof (cases r1)
    case None
    with ok1 f1 have f1': "files w1 = (files w)(p \<mapsto> TextFile (t @ s))" by simp
    then have p1: "files w1 p = Some (TextFile (t @ s))" by simp
    from fw None have "f_write p s w = (None, w1)" by simp
    from write_all_Cons_ok [OF this, of ss] Cons.prems(2)
    have rest: "write_all p ss w1 = (r, w')" by simp
    from Cons.IH [OF p1 rest] obtain k where
      lg: "logged w' = logged w1" and ex: "exception_text w' = exception_text w1"
      and k: "k \<le> length (concat ss)"
      and fk: "files w' = (files w1)(p \<mapsto> TextFile ((t @ s) @ take k (concat ss)))"
      and rn: "r = None \<longrightarrow> k = length (concat ss)"
      and rs: "r \<noteq> None \<longrightarrow> k < length (concat ss)" by (elim exE conjE)
    have c1: "files w' = (files w)(p \<mapsto> TextFile (t @ take (length s + k) (concat (s # ss))))"
      by (simp add: fk f1')
    have c2: "length s + k \<le> length (concat (s # ss))" using k by simp
    have c3: "r = None \<longrightarrow> length s + k = length (concat (s # ss))" using rn by simp
    have c4: "r \<noteq> None \<longrightarrow> length s + k < length (concat (s # ss))" using rs by simp
    have c5: "logged w' = logged w" using lg lg1 by simp
    have c6: "exception_text w' = exception_text w" using ex ex1 by simp
    from c1 c2 c3 c4 c5 c6 show ?thesis by (intro conjI exI [of _ "length s + k"])
  next
    case (Some e)
    with no1 have kl: "k1 < length s" by simp
    from fw Some have "f_write p s w = (Some e, w1)" by simp
    from write_all_Cons_fail [OF this, of ss] Cons.prems(2)
    have r: "r = Some e" and w: "w' = w1" by simp_all
    have c1: "files w' = (files w)(p \<mapsto> TextFile (t @ take k1 (concat (s # ss))))"
      using w f1 kl by simp
    have c2: "k1 \<le> length (concat (s # ss))" using kl by simp
    have c3: "r = None \<longrightarrow> k1 = length (concat (s # ss))" using r by simp
    have c4: "r \<noteq> None \<longrightarrow> k1 < length (concat (s # ss))" using kl by simp
    have c5: "logged w' = logged w" using w lg1 by simp
    have c6: "exception_text w' = exception_text w" using w ex1 by simp
    from c1 c2 c3 c4 c5 c6 show ?thesis by (intro conjI exI [of _ k1])
  qed
qed

lemma json_dump_effect:
  assumes "files w p = Some (TextFile [])" and "json_dump v p w = (r, w')"
  shows "logged w' = logged w \<and> exception_text w' = exception_text w
     \<and> (r = None \<longrightarrow> files w' = (files w)(p \<mapsto> JsonFile v))
     \<and> (r \<noteq> None \<longrightarrow>
          (\<exists>k < length (json_text 0 v).
             files w' = (files w)(p \<mapsto> TextFile (take k (json_text 0 v)))))"
proof -
  obtain r1 w1 where fw: "f_write p (json_text 0 v) w = (r1, w1)"
    by (cases "f_write p (json_text 0 v) w")
  have wr: "written p w = []" using assms(1) by (simp add: written_def)
  from f_write_effect [OF fw] wr obtain k where
    lg1: "logged w1 = logged w" and ex1: "exception_text w1 = exception_text w"
    and f1: "files w1 = (files w)(p \<mapsto> TextFile (take k (json_text 0 v)))"
    and no1: "r1 \<noteq> None \<longrightarrow> k < length (json_text 0 v)"
    by (elim exE conjE) simp
  show ?thesis
  proof (cases r1)
    case None
    with fw assms(2) have "r = None" and "w' = w1\<lparr>files := (files w1)(p \<mapsto> JsonFile v)\<rparr>"
      by (simp_all add: json_dump_def)
    with lg1 ex1 f1 show ?thesis by simp
  next
    case (Some e)
    with fw assms(2) have r: "r = Some e" and w: "w' = w1" by (simp_all add: json_dump_def)
    from Some no1 have kl: "k < length (json_text 0 v)" by simp
    have "\<exists>k < length (json_text 0 v).
             files w' = (files w)(p \<mapsto> TextFile (take k (json_text 0 v)))"
      using kl f1 w by (intro exI [of _ k]) simp
    with r w lg1 ex1 show ?thesis by simp
  qed
qed

text \<open>The two targets of \<^verbatim>\<open>save_chunks\<close> are different files.\<close>

lemma with_suffix_last:
  "with_suffix p sfx = Inr q \<Longrightarrow>
     q \<noteq> [] \<and> last q = take (length (path_name p) - length (name_suffix (path_name p))) (path_name p) @ sfx"
  by (auto simp add: with_suffix_def Let_def split: if_splits)

lemma with_suffix_distinct:
  assumes "with_suffix p s1 = Inr a" and "with_suffix p s2 = Inr b" and "s1 \<noteq> s2"
  shows "a \<noteq> b"
proof
  assume "a = b"
  with with_suffix_last [OF assms(1)] with_suffix_last [OF assms(2)]
  have "take (length (path_name p) - length (name_suffix (path_name p))) (path_name p) @ s1
      = take (length (path_name p) - length (name_suffix (path_name p))) (path_name p) @ s2"
    by simp
  with assms(3) show False by simp
qed

text \<open>
  The five ways \<^verbatim>\<open>save_chunks\<close> can end: failing at the first \<^verbatim>\<open>open\<close>, inside
  \<^verbatim>\<open>json.dump\<close>, at the second \<^verbatim>\<open>open\<close>, inside the block of \<^verbatim>\<open>f.write\<close>
  calls, or not at all.
\<close>

lemma save_chunks_cases:
  assumes J: "with_suffix output_file ''.chunks.json'' = Inr json_file"
      and T: "with_suffix output_file ''.chunks.txt'' = Inr txt_file"
      and S: "save_chunks now chunks output_file original_filename w = (r, w')"
  shows "(r \<noteq> None \<and> files w' = files w)
       \<or> (\<exists>k < length (json_text 0 (JList (json_records now original_filename (clock w) chunks))).
              r \<noteq> None
            \<and> files w' = (files w)(json_file \<mapsto> TextFile (take k
                  (json_text 0 (JList (json_records now original_filename (clock w) chunks))))))
       \<or> (r \<noteq> None
            \<and> files w' = (files w)(json_file \<mapsto>
                  JsonFile (JList (json_records now original_filename (clock w) chunks))))
       \<or> (\<exists>k < length (concat (txt_writes original_filename chunks)).
              r \<noteq> None
            \<and> files w' = (files w)(json_file \<mapsto>
                  JsonFile (JList (json_records now original_filename (clock w) chunks)),
                txt_file \<mapsto> TextFile (take k (concat (txt_writes original_filename chunks)))))
       \<or> (r = None
            \<and> files w' = (files w)(json_file \<mapsto>
                  JsonFile (JList (json_records now original_filename (clock w) chunks)),
                txt_file \<mapsto> TextFile (concat (txt_writes original_filename chunks))))"
  (is "?A \<or> ?B \<or> ?C \<or> ?D \<or> ?E")
proof -
  let ?w1 = "w\<lparr>clock := clock w + length chunks\<rparr>"
  let ?recs = "JList (json_records now original_filename (clock w) chunks)"
  let ?ws = "txt_writes original_filename chunks"
  have fw1: "files ?w1 = files w" by simp
  have unf: "save_chunks now chunks output_file original_filename w =
     (case open_w json_file ?w1 of
        (Some e, w2) \<Rightarrow> (Some e, w2)
      | (None, w2) \<Rightarrow>
          (case json_dump ?recs json_file w2 of
             (Some e, w3) \<Rightarrow> (Some e, w3)
           | (None, w3) \<Rightarrow>
               (case open_w txt_file w3 of
                  (Some e, w4) \<Rightarrow> (Some e, w4)
                | (None, w4) \<Rightarrow> write_all txt_file ?ws w4)))"
    unfolding save_chunks_def Let_def J T by (simp split: prod.splits option.splits)
  obtain r2 w2 where o2: "open_w json_file ?w1 = (r2, w2)" by (cases "open_w json_file ?w1")
  from open_w_effect [OF o2] fw1
  have e2a: "r2 = None \<longrightarrow> files w2 = (files w)(json_file \<mapsto> TextFile [])"
    and e2b: "r2 \<noteq> None \<longrightarrow> files w2 = files w" by simp_all
  show ?thesis
  proof (cases r2)
    case (Some e)
    from S unf o2 Some have "r = Some e" and "w' = w2" by simp_all
    moreover from e2b Some have "files w2 = files w" by simp
    ultimately have ?A by simp
    then show ?thesis by (rule disjI1)
  next
    case None
    from e2a None have f2: "files w2 = (files w)(json_file \<mapsto> TextFile [])" by simp
    then have p2: "files w2 json_file = Some (TextFile [])" by simp
    obtain r3 w3 where o3: "json_dump ?recs json_file w2 = (r3, w3)"
      by (cases "json_dump ?recs json_file w2")
    from json_dump_effect [OF p2 o3]
    have e3a: "r3 = None \<longrightarrow> files w3 = (files w2)(json_file \<mapsto> JsonFile ?recs)"
      and e3b: "r3 \<noteq> None \<longrightarrow>
          (\<exists>k < length (json_text 0 ?recs).
             files w3 = (files w2)(json_file \<mapsto> TextFile (take k (json_text 0 ?recs))))"
      by simp_all
    show ?thesis
    proof (cases r3)
      case (Some e)
      from S unf o2 o3 None Some have r: "r = Some e" and w: "w' = w3" by simp_all
      from e3b Some obtain k where kl: "k < length (json_text 0 ?recs)"
        and f3: "files w3 = (files w2)(json_file \<mapsto> TextFile (take k (json_text 0 ?recs)))"
        by auto
      have rne: "r \<noteq> None" using r by simp
      have fk: "files w' = (files w)(json_file \<mapsto> TextFile (take k (json_text 0 ?recs)))"
        using f3 f2 w by simp
      from kl rne fk have ?B by (intro exI [of _ k] conjI)
      then show ?thesis by (intro disjI2 disjI1)
    next
      case None3: None
      from e3a None3 f2 have f3: "files w3 = (files w)(json_file \<mapsto> JsonFile ?recs)" by simp
      obtain r4 w4 where o4: "open_w txt_file w3 = (r4, w4)" by (cases "open_w txt_file w3")
      from open_w_effect [OF o4]
      have e4a: "r4 = None \<longrightarrow> files w4 = (files w3)(txt_file \<mapsto> TextFile [])"
        and e4b: "r4 \<noteq> None \<longrightarrow> files w4 = files w3" by simp_all
      show ?thesis
      proof (cases r4)
        case (Some e)
        from S unf o2 o3 o4 None None3 Some have "r = Some e" and "w' = w4" by simp_all
        moreover from e4b Some f3 have "files w4 = (files w)(json_file \<mapsto> JsonFile ?recs)"
          by simp
        ultimately have ?C by simp
        then show ?thesis by (intro disjI2 disjI1)
      next
        case None4: None
        from e4a None4 f3
        have f4: "files w4 = (files w)(json_file \<mapsto> JsonFile ?recs, txt_file \<mapsto> TextFile [])"
          by simp
        then have p4: "files w4 txt_file = Some (TextFile [])" by simp
        from S unf o2 o3 o4 None None3 None4
        have wa: "write_all txt_file ?ws w4 = (r, w')" by simp
        from write_all_effect [OF p4 wa] obtain k where
          k: "k \<le> length (concat ?ws)"
          and fk: "files w' = (files w4)(txt_file \<mapsto> TextFile ([] @ take k (concat ?ws)))"
          and rn: "r = None \<longrightarrow> k = length (concat ?ws)"
          and rs: "r \<noteq> None \<longrightarrow> k < length (concat ?ws)" by (elim exE conjE)
        have fk': "files w' = (files w)(json_file \<mapsto> JsonFile ?recs,
                      txt_file \<mapsto> TextFile (take k (concat ?ws)))"
          by (simp add: fk f4)
        show ?thesis
        proof (cases r)
          case None5: None
          with rn have "k = length (concat ?ws)" by simp
          with fk' None5 have ?E by simp
          then show ?thesis by (intro disjI2)
        next
          case (Some e)
          with rs have kl: "k < length (concat ?ws)" by simp
          have rne: "r \<noteq> None" using Some by simp
          from kl rne fk' have ?D by (intro exI [of _ k] conjI)
          then show ?thesis by (intro disjI2 disjI1)
        qed
      qed
    qed
  qed
qed

text \<open>\<^verbatim>\<open>save_chunks\<close> has no logger call and leaves the wording of exceptions alone.\<close>

lemma json_dump_logged:
  "json_dump v p w = (r, w') \<Longrightarrow>
     logged w' = logged w \<and> exception_text w' = exception_text w"
  by (auto simp add: json_dump_def split: prod.splits option.splits dest!: f_write_effect)

lemma write_all_logged:
  "write_all p ss w = (r, w') \<Longrightarrow>
     logged w' = logged w \<and> exception_text w' = exception_text w"
proof (induction ss arbitrary: w)
  case Nil
  then show ?case by simp
next
  case (Cons s ss)
  obtain r1 w1 where fw: "f_write p s w = (r1, w1)" by (cases "f_write p s w")
  from f_write_effect [OF fw]
  have k1: "logged w1 = logged w \<and> exception_text w1 = exception_text w" by simp
  show ?case
  proof (cases r1)
    case None
    with fw Cons.prems have "write_all p ss w1 = (r, w')" by simp
    from Cons.IH [OF this] k1 show ?thesis by simp
  next
    case (Some e)
    with fw Cons.prems have "w' = w1" by simp
    with k1 show ?thesis by simp
  qed
qed

lemma save_chunks_logged:
  "save_chunks now chunks output_file original_filename w = (r, w') \<Longrightarrow>
     logged w' = logged w \<and> exception_text w' = exception_text w"
  unfolding save_chunks_def Let_def
  by (auto split: sum.splits prod.splits option.splits
           dest!: open_w_effect json_dump_logged write_all_logged)

section \<open>The log of a batch\<close>

text \<open>
  The log of \<^verbatim>\<open>process_file\<close> is what its own logger calls append: one entry that
  names the file, and one outcome.
\<close>

lemma process_file_log:
  assumes "process_file lib now input_file output_dir config w = (ok, w')"
  shows "attempted (logged w') = attempted (logged w) @ [path_name input_file]
       \<and> outcomes (logged w') = outcomes (logged w) @ [ok]"
  using assms
  unfolding process_file_def process_failed_def Let_def logger_info_def logger_warning_def
    logger_error_def
  by (auto split: sum.splits prod.splits option.splits if_splits
           dest!: save_chunks_logged
           simp add: attempted_def outcomes_def outcome_of_def map_filter_def)

lemma process_files_log:
  "process_files lib now json_files output_dir config n w = (k, w') \<Longrightarrow>
     attempted (logged w') = attempted (logged w) @ map path_name json_files
     \<and> (\<exists>results. outcomes (logged w') = outcomes (logged w) @ results
            \<and> length results = length json_files
            \<and> k = n + length (filter id results))"
proof (induction json_files arbitrary: n w)
  case Nil
  then show ?case by simp
next
  case (Cons f fs)
  obtain ok w1 where pf: "process_file lib now f output_dir config w = (ok, w1)"
    by (cases "process_file lib now f output_dir config w")
  from Cons.prems pf
  have rest: "process_files lib now fs output_dir config
                (if ok then n + 1 else n) w1 = (k, w')"
    by simp
  from process_file_log [OF pf]
  have a1: "attempted (logged w1) = attempted (logged w) @ [path_name f]"
    and o1: "outcomes (logged w1) = outcomes (logged w) @ [ok]" by simp_all
  from Cons.IH [OF rest] obtain results where
    a2: "attempted (logged w') = attempted (logged w1) @ map path_name fs"
    and o2: "outcomes (logged w') = outcomes (logged w1) @ results"
    and len: "length results = length fs"
    and k: "k = (if ok then n + 1 else n) + length (filter id results)" by blast
  have "outcomes (logged w') = outcomes (logged w) @ (ok # results)"
    using o1 o2 by simp
  moreover have "length (ok # results) = length (f # fs)" using len by simp
  moreover have "k = n + length (filter id (ok # results))" using k by simp
  ultimately have "\<exists>results. outcomes (logged w') = outcomes (logged w) @ results
            \<and> length results = length (f # fs)
            \<and> k = n + length (filter id results)" by blast
  moreover have "attempted (logged w') = attempted (logged w) @ map path_name (f # fs)"
    using a1 a2 by simp
  ultimately show ?case by blast
qed

lemma main_nonempty:
  assumes "json_files \<noteq> []"
  shows "\<exists>k w4. process_files lib now json_files (current_dir @ [''chunked_output''])
            \<lparr> max_characters = 1000, new_after_n_chars = 800,
              combine_text_under_n_chars = 200, overlap = 50, overlap_all = False,
              multipage_sections = True \<rparr> 0
            (logger_info (''Found '' @ str_nat (length json_files) @ '' JSON files to process'')
              (logger_info (''Configuration: max_chars='' @ str_int 1000
                            @ '', new_after='' @ str_int 800
                            @ '', combine_under='' @ str_int 200)
                (logger_info ''Starting chunking process'' w))) = (k, w4)
        \<and> main lib now current_dir json_files w =
            logger_info (''Output saved to: '' @ path_str (current_dir @ [''chunked_output'']))
              (logger_info (completion_message k (length json_files)) w4)"
  using assms
  by (simp add: main_def ChunkingConfig_init_def Let_def split: prod.splits)

section \<open>Empty element data: theorems\<close>

lemma process_file_empty:
  assumes "files w input_file = Some (JsonFile json_data)" and "\<not> truthy json_data"
  shows "process_file lib now input_file output_dir config w =
     (False, w\<lparr>logged := logged w @ [(INFO, ''Processing file: '' @ path_name input_file),
                                     (WARNING, ''Empty JSON file: '' @ path_name input_file)]\<rparr>)"
  using assms
  by (simp add: process_file_def read_json_def logger_info_def logger_warning_def)

text \<open>
  C4 (as the code has it). When the element data of a file is empty (an empty list, or
  any other value Python reads as false), \<^verbatim>\<open>process_file\<close> returns False: it leaves
  every file as it was, so no chunk is written, its only log entries are the line
  naming the file and the warning "Empty JSON file", and the batch does not count the
  file as processed successfully.
\<close>

theorem empty_data_not_success:
  assumes "files w input_file = Some (JsonFile json_data)" and "\<not> truthy json_data"
  shows "process_file lib now input_file output_dir config w =
     (False, w\<lparr>logged := logged w @ [(INFO, ''Processing file: '' @ path_name input_file),
                                     (WARNING, ''Empty JSON file: '' @ path_name input_file)]\<rparr>)
   \<and> fst (process_files lib now [input_file] output_dir config n w) = n"
  using assms
  by (simp add: process_file_empty)

theorem empty_data_not_success_witness:
  "process_file example_library (\<lambda>t. ''2024-01-01T00:00:00'')
      [''output'', ''doc.pdf.json''] [''chunked_output'']
      \<lparr> max_characters = 1000, new_after_n_chars = 800, combine_text_under_n_chars = 200,
        overlap = 50, overlap_all = False, multipage_sections = True \<rparr>
      \<lparr> files = [[''output'', ''doc.pdf.json''] \<mapsto> JsonFile (JObj [])], logged = [],
        fault = None, clock = 0, exception_text = (\<lambda>p e. '''') \<rparr>
   = (False, \<lparr> files = [[''output'', ''doc.pdf.json''] \<mapsto> JsonFile (JObj [])],
               logged = [(INFO, ''Processing file: doc.pdf.json''),
                         (WARNING, ''Empty JSON file: doc.pdf.json'')],
               fault = None, clock = 0, exception_text = (\<lambda>p e. '''') \<rparr>)"
  using empty_data_not_success [of
      "\<lparr> files = [[''output'', ''doc.pdf.json''] \<mapsto> JsonFile (JObj [])], logged = [],
        fault = None, clock = 0, exception_text = (\<lambda>p e. '''') \<rparr>"
      "[''output'', ''doc.pdf.json'']" "JObj []"
      "example_library" "(\<lambda>t. ''2024-01-01T00:00:00'')"
      "[''chunked_output'']"
      "\<lparr> max_characters = 1000, new_after_n_chars = 800, combine_text_under_n_chars = 200,
        overlap = 50, overlap_all = False, multipage_sections = True \<rparr>" 0]
  by (simp add: path_name_def)

text \<open>
  C4 as stated fails: for a file whose element list is empty, \<^verbatim>\<open>process_file\<close>
  returns False, and the counter of successes of the batch stays at 0.
\<close>

theorem empty_elements_reported_failed_counterexample:
  "fst (process_file example_library (\<lambda>t. ''2024-01-01T00:00:00'')
      [''output'', ''doc.pdf.json''] [''chunked_output'']
      \<lparr> max_characters = 1000, new_after_n_chars = 800, combine_text_under_n_chars = 200,
        overlap = 50, overlap_all = False, multipage_sections = True \<rparr>
      \<lparr> files = [[''output'', ''doc.pdf.json''] \<mapsto> JsonFile (JList [])], logged = [],
        fault = None, clock = 0, exception_text = (\<lambda>p e. '''') \<rparr>) = False
   \<and> fst (process_files example_library (\<lambda>t. ''2024-01-01T00:00:00'')
      [[''output'', ''doc.pdf.json'']] [''chunked_output'']
      \<lparr> max_characters = 1000, new_after_n_chars = 800, combine_text_under_n_chars = 200,
        overlap = 50, overlap_all = False, multipage_sections = True \<rparr> 0
      \<lparr> files = [[''output'', ''doc.pdf.json''] \<mapsto> JsonFile (JList [])], logged = [],
        fault = None, clock = 0, exception_text = (\<lambda>p e. '''') \<rparr>) = 0"
  by (simp add: process_file_def read_json_def logger_info_def logger_warning_def)

section \<open>The batch: theorems\<close>

text \<open>
  C7 (as the code has it). For every non-empty list of input files, the batch starts
  every file, in order, whatever happened to the files before it; every file leaves
  exactly one outcome entry in the log (saved, or error or empty); and the log ends
  with the count of the files that succeeded out of the number of files, followed by
  the line naming the output directory.
\<close>

theorem batch_attempts_every_file:
  assumes "json_files \<noteq> []"
  shows "attempted (logged (main lib now current_dir json_files w))
           = attempted (logged w) @ map path_name json_files
       \<and> (\<exists>results.
             outcomes (logged (main lib now current_dir json_files w))
               = outcomes (logged w) @ results
           \<and> length results = length json_files
           \<and> (\<exists>earlier. logged (main lib now current_dir json_files w) =
                 earlier @
                 [(INFO, completion_message (length (filter id results)) (length json_files)),
                  (INFO, ''Output saved to: '' @ path_str (current_dir @ [''chunked_output'']))]))"
proof -
  from main_nonempty [OF assms, of lib now current_dir w]
  obtain k w4 where
    pf: "process_files lib now json_files (current_dir @ [''chunked_output''])
            \<lparr> max_characters = 1000, new_after_n_chars = 800,
              combine_text_under_n_chars = 200, overlap = 50, overlap_all = False,
              multipage_sections = True \<rparr> 0
            (logger_info (''Found '' @ str_nat (length json_files) @ '' JSON files to process'')
              (logger_info (''Configuration: max_chars='' @ str_int 1000
                            @ '', new_after='' @ str_int 800
                            @ '', combine_under='' @ str_int 200)
                (logger_info ''Starting chunking process'' w))) = (k, w4)"
    and m: "main lib now current_dir json_files w =
            logger_info (''Output saved to: '' @ path_str (current_dir @ [''chunked_output'']))
              (logger_info (completion_message k (length json_files)) w4)"
    by blast
  let ?w3 = "logger_info (''Found '' @ str_nat (length json_files) @ '' JSON files to process'')
              (logger_info (''Configuration: max_chars='' @ str_int 1000
                            @ '', new_after='' @ str_int 800
                            @ '', combine_under='' @ str_int 200)
                (logger_info ''Starting chunking process'' w))"
  have a3: "attempted (logged ?w3) = attempted (logged w)"
    by (simp add: logger_info_def attempted_def)
  have o3: "outcomes (logged ?w3) = outcomes (logged w)"
    by (simp add: logger_info_def outcomes_def outcome_of_def map_filter_def)
  from process_files_log [OF pf] obtain results where
    a4: "attempted (logged w4) = attempted (logged ?w3) @ map path_name json_files"
    and o4: "outcomes (logged w4) = outcomes (logged ?w3) @ results"
    and len: "length results = length json_files"
    and k: "k = 0 + length (filter id results)" by blast
  have lg: "logged (main lib now current_dir json_files w) =
      logged w4 @ [(INFO, completion_message k (length json_files)),
                   (INFO, ''Output saved to: '' @ path_str (current_dir @ [''chunked_output'']))]"
    by (simp add: m logger_info_def)
  have a5: "attempted (logged (main lib now current_dir json_files w))
              = attempted (logged w4)"
    by (simp add: lg attempted_def completion_message_def)
  have o5: "outcomes (logged (main lib now current_dir json_files w))
              = outcomes (logged w4)"
    by (simp add: lg outcomes_def outcome_of_def map_filter_def completion_message_def)
  have p1: "attempted (logged (main lib now current_dir json_files w))
           = attempted (logged w) @ map path_name json_files"
    using a5 a4 a3 by simp
  have p2: "outcomes (logged (main lib now current_dir json_files w))
               = outcomes (logged w) @ results"
    using o5 o4 o3 by simp
  have p3: "\<exists>earlier. logged (main lib now current_dir json_files w) =
                 earlier @
                 [(INFO, completion_message (length (filter id results)) (length json_files)),
                  (INFO, ''Output saved to: '' @ path_str (current_dir @ [''chunked_output'']))]"
    using lg k by simp
  from p1 p2 p3 len show ?thesis by blast
qed

theorem batch_attempts_every_file_witness:
  "attempted (logged (main example_library
            (\<lambda>t. ''2024-01-01T00:00:00'') [''app'']
            [[''app'', ''output'', ''a.json''], [''app'', ''output'', ''b.json'']]
            \<lparr> files = [[''app'', ''output'', ''b.json''] \<mapsto>
                        JsonFile (JList [JObj [(''type'', JStr ''Title''), (''text'', JStr ''hello'')]])],
              logged = [], fault = None, clock = 0,
              exception_text = (\<lambda>p e. ''[Errno 2] No such file or directory: '' @ [CHR 0x27] @ path_str p @ [CHR 0x27]) \<rparr>))
     = [''a.json'', ''b.json'']
   \<and> logged (main example_library
            (\<lambda>t. ''2024-01-01T00:00:00'') [''app'']
            [[''app'', ''output'', ''a.json''], [''app'', ''output'', ''b.json'']]
            \<lparr> files = [[''app'', ''output'', ''b.json''] \<mapsto>
                        JsonFile (JList [JObj [(''type'', JStr ''Title''), (''text'', JStr ''hello'')]])],
              logged = [], fault = None, clock = 0,
              exception_text = (\<lambda>p e. ''[Errno 2] No such file or directory: '' @ [CHR 0x27] @ path_str p @ [CHR 0x27]) \<rparr>)
     = [(INFO, ''Starting chunking process''),
        (INFO, ''Configuration: max_chars=1000, new_after=800, combine_under=200''),
        (INFO, ''Found 2 JSON files to process''),
        (INFO, ''Processing file: a.json''),
        (ERROR, ''Error processing a.json: [Errno 2] No such file or directory: ''
                  @ [CHR 0x27] @ ''/app/output/a.json'' @ [CHR 0x27]),
        (INFO, ''Processing file: b.json''),
        (INFO, ''Converted 1 elements from JSON''),
        (INFO, ''Created 1 chunks''),
        (INFO, ''Saved chunks for b.json''),
        (INFO, ''Chunking complete! Processed 1/2 files successfully''),
        (INFO, ''Output saved to: /app/chunked_output'')]"
proof -
  let ?m = "main example_library
            (\<lambda>t. ''2024-01-01T00:00:00'') [''app'']
            [[''app'', ''output'', ''a.json''], [''app'', ''output'', ''b.json'']]
            \<lparr> files = [[''app'', ''output'', ''b.json''] \<mapsto>
                        JsonFile (JList [JObj [(''type'', JStr ''Title''), (''text'', JStr ''hello'')]])],
              logged = [], fault = None, clock = 0,
              exception_text = (\<lambda>p e. ''[Errno 2] No such file or directory: '' @ [CHR 0x27] @ path_str p @ [CHR 0x27]) \<rparr>"
  have ne: "[[''app'', ''output'', ''a.json''], [''app'', ''output'', ''b.json'']] \<noteq> []"
    by simp
  have a: "attempted (logged ?m) = [''a.json'', ''b.json'']"
    using batch_attempts_every_file [OF ne, of
        "example_library"
        "(\<lambda>t. ''2024-01-01T00:00:00'')" "[''app'']"
        "\<lparr> files = [[''app'', ''output'', ''b.json''] \<mapsto>
                        JsonFile (JList [JObj [(''type'', JStr ''Title''), (''text'', JStr ''hello'')]])],
              logged = [], fault = None, clock = 0,
              exception_text = (\<lambda>p e. ''[Errno 2] No such file or directory: '' @ [CHR 0x27] @ path_str p @ [CHR 0x27]) \<rparr>"]
    by (simp add: attempted_def path_name_def)
  have b: "logged ?m
     = [(INFO, ''Starting chunking process''),
        (INFO, ''Configuration: max_chars=1000, new_after=800, combine_under=200''),
        (INFO, ''Found 2 JSON files to process''),
        (INFO, ''Processing file: a.json''),
        (ERROR, ''Error processing a.json: [Errno 2] No such file or directory: ''
                  @ [CHR 0x27] @ ''/app/output/a.json'' @ [CHR 0x27]),
        (INFO, ''Processing file: b.json''),
        (INFO, ''Converted 1 elements from JSON''),
        (INFO, ''Created 1 chunks''),
        (INFO, ''Saved chunks for b.json''),
        (INFO, ''Chunking complete! Processed 1/2 files successfully''),
        (INFO, ''Output saved to: /app/chunked_output'')]"
    by (simp add: run_defs)
  from a b show ?thesis by (rule conjI)
qed

text \<open>
  C7 as stated fails for the empty list of files: \<^verbatim>\<open>main\<close> logs an error and returns
  before the loop, and no count is reported.
\<close>

theorem empty_batch_no_count_counterexample:
  "logged (main example_library (\<lambda>t. ''2024-01-01T00:00:00'') [''app''] []
            \<lparr> files = Map.empty, logged = [], fault = None, clock = 0,
              exception_text = (\<lambda>p e. ''[Errno 2] No such file or directory: '' @ [CHR 0x27] @ path_str p @ [CHR 0x27]) \<rparr>)
   = [(INFO, ''Starting chunking process''),
      (INFO, ''Configuration: max_chars=1000, new_after=800, combine_under=200''),
      (ERROR, ''No JSON files found in /app/output'')]"
  by (simp add: main_def ChunkingConfig_init_def logger_info_def logger_error_def
        str_int_def str_nat.simps digit_char_def path_str_def)

section \<open>save\_chunks: theorems\<close>

text \<open>
  C5 (as the code has it). \<^verbatim>\<open>save_chunks\<close> writes each target in place, under its final
  name.  When it succeeds, the JSON file holds one record per chunk and the text file
  the complete rendering.  When it fails, what reached a file before the failure
  stays: the JSON target is unchanged, or holds the first \<open>k\<close> characters of its
  text only (possibly none), or is complete; the text target is unchanged or holds the
  first \<open>k\<close> characters of the rendering only, with \<open>k\<close> below the length of
  the whole.  No other file is touched.
\<close>

theorem save_chunks_written_in_place:
  assumes J: "with_suffix output_file ''.chunks.json'' = Inr json_file"
      and T: "with_suffix output_file ''.chunks.txt'' = Inr txt_file"
      and S: "save_chunks now chunks output_file original_filename w = (r, w')"
  shows "(r = None \<longrightarrow>
            files w' json_file
              = Some (JsonFile (JList (json_records now original_filename (clock w) chunks)))
          \<and> files w' txt_file
              = Some (TextFile (concat (txt_writes original_filename chunks))))
       \<and> (r \<noteq> None \<longrightarrow>
            (files w' json_file = files w json_file
             \<or> (\<exists>k < length (json_text 0
                              (JList (json_records now original_filename (clock w) chunks))).
                   files w' json_file
                     = Some (TextFile (take k (json_text 0
                              (JList (json_records now original_filename (clock w) chunks))))))
             \<or> files w' json_file
                 = Some (JsonFile (JList (json_records now original_filename (clock w) chunks))))
          \<and> (files w' txt_file = files w txt_file
             \<or> (\<exists>k < length (concat (txt_writes original_filename chunks)).
                   files w' txt_file
                     = Some (TextFile (take k (concat (txt_writes original_filename chunks)))))))
       \<and> (\<forall>p. p \<noteq> json_file \<and> p \<noteq> txt_file \<longrightarrow> files w' p = files w p)"
proof -
  let ?recs = "JList (json_records now original_filename (clock w) chunks)"
  let ?txt = "concat (txt_writes original_filename chunks)"
  have ne: "json_file \<noteq> txt_file"
    using with_suffix_distinct [OF J T] by simp
  from save_chunks_cases [OF J T S] show ?thesis
  proof (elim disjE exE conjE)
    assume "r \<noteq> None" "files w' = files w"
    then show ?thesis by auto
  next
    fix k
    assume k: "k < length (json_text 0 ?recs)" and r: "r \<noteq> None"
      and fs: "files w' = (files w)(json_file \<mapsto> TextFile (take k (json_text 0 ?recs)))"
    have a: "\<exists>k < length (json_text 0 ?recs).
               files w' json_file = Some (TextFile (take k (json_text 0 ?recs)))"
      using fs k by (intro exI [of _ k]) simp
    have b: "files w' txt_file = files w txt_file" using fs ne by simp
    have c: "\<forall>p. p \<noteq> json_file \<and> p \<noteq> txt_file \<longrightarrow> files w' p = files w p"
      using fs by simp
    from a b c r show ?thesis by blast
  next
    assume "r \<noteq> None" "files w' = (files w)(json_file \<mapsto> JsonFile ?recs)"
    then show ?thesis using ne by auto
  next
    fix k
    assume k: "k < length ?txt" and r: "r \<noteq> None"
      and fs: "files w' = (files w)(json_file \<mapsto> JsonFile ?recs,
                                   txt_file \<mapsto> TextFile (take k ?txt))"
    have a: "files w' json_file = Some (JsonFile ?recs)" using fs ne by simp
    have b: "\<exists>k < length ?txt. files w' txt_file = Some (TextFile (take k ?txt))"
      using fs k by (intro exI [of _ k]) simp
    have c: "\<forall>p. p \<noteq> json_file \<and> p \<noteq> txt_file \<longrightarrow> files w' p = files w p"
      using fs by simp
    from a b c r show ?thesis by blast
  next
    assume "r = None"
      "files w' = (files w)(json_file \<mapsto> JsonFile ?recs, txt_file \<mapsto> TextFile ?txt)"
    then show ?thesis using ne by auto
  qed
qed

theorem save_chunks_written_in_place_witness:
  "fst (save_chunks (\<lambda>t. ''2024-01-01T00:00:00'')
          [\<lparr>chunk_type = ''CompositeElement'', chunk_text = ''hello world'', orig_elements = []\<rparr>,
           \<lparr>chunk_type = ''CompositeElement'', chunk_text = ''second'', orig_elements = []\<rparr>]
          [''chunked_output'', ''doc.pdf''] ''doc.pdf.json''
          \<lparr> files = Map.empty, logged = [], fault = None, clock = 0,
            exception_text = (\<lambda>p e. '''') \<rparr>) = None
   \<and> files (snd (save_chunks (\<lambda>t. ''2024-01-01T00:00:00'')
          [\<lparr>chunk_type = ''CompositeElement'', chunk_text = ''hello world'', orig_elements = []\<rparr>,
           \<lparr>chunk_type = ''CompositeElement'', chunk_text = ''second'', orig_elements = []\<rparr>]
          [''chunked_output'', ''doc.pdf''] ''doc.pdf.json''
          \<lparr> files = Map.empty, logged = [], fault = None, clock = 0,
            exception_text = (\<lambda>p e. '''') \<rparr>))
        [''chunked_output'', ''doc.chunks.txt'']
     = Some (TextFile (concat (txt_writes ''doc.pdf.json''
          [\<lparr>chunk_type = ''CompositeElement'', chunk_text = ''hello world'', orig_elements = []\<rparr>,
           \<lparr>chunk_type = ''CompositeElement'', chunk_text = ''second'', orig_elements = []\<rparr>])))
   \<and> files (snd (save_chunks (\<lambda>t. ''2024-01-01T00:00:00'')
          [\<lparr>chunk_type = ''CompositeElement'', chunk_text = ''hello world'', orig_elements = []\<rparr>,
           \<lparr>chunk_type = ''CompositeElement'', chunk_text = ''second'', orig_elements = []\<rparr>]
          [''chunked_output'', ''doc.pdf''] ''doc.pdf.json''
          \<lparr> files = Map.empty, logged = [], fault = None, clock = 0,
            exception_text = (\<lambda>p e. '''') \<rparr>))
        [''chunked_output'', ''doc.chunks.json'']
     = Some (JsonFile (JList (json_records (\<lambda>t. ''2024-01-01T00:00:00'') ''doc.pdf.json'' 0
          [\<lparr>chunk_type = ''CompositeElement'', chunk_text = ''hello world'', orig_elements = []\<rparr>,
           \<lparr>chunk_type = ''CompositeElement'', chunk_text = ''second'', orig_elements = []\<rparr>])))"
proof -
  let ?chunks = "[\<lparr>chunk_type = ''CompositeElement'', chunk_text = ''hello world'', orig_elements = []\<rparr>,
           \<lparr>chunk_type = ''CompositeElement'', chunk_text = ''second'', orig_elements = []\<rparr>]"
  let ?w = "\<lparr> files = Map.empty, logged = [], fault = None, clock = 0,
            exception_text = (\<lambda>p e. '''') \<rparr>"
  let ?run = "save_chunks (\<lambda>t. ''2024-01-01T00:00:00'') ?chunks
                [''chunked_output'', ''doc.pdf''] ''doc.pdf.json'' ?w"
  have J: "with_suffix [''chunked_output'', ''doc.pdf''] ''.chunks.json''
             = Inr [''chunked_output'', ''doc.chunks.json'']"
    by (simp add: with_suffix_def path_name_def name_suffix_def rfind_def)
  have T: "with_suffix [''chunked_output'', ''doc.pdf''] ''.chunks.txt''
             = Inr [''chunked_output'', ''doc.chunks.txt'']"
    by (simp add: with_suffix_def path_name_def name_suffix_def rfind_def)
  have S: "?run = (fst ?run, snd ?run)" by simp
  have ok: "fst ?run = None"
    by (simp add: run_defs)
  from save_chunks_written_in_place [OF J T S] ok show ?thesis by simp
qed

text \<open>
  C5 as stated fails.  With one chunk, a failure after the JSON file was opened and six
  of its characters were written leaves a JSON file that holds those six characters;
  a failure after the JSON file was completed, the text file opened and thirty of its
  characters written leaves a text file cut in its first line, next to a complete JSON
  file.
\<close>

theorem partial_output_files_counterexample:
  "fst (save_chunks (\<lambda>t. ''2024-01-01T00:00:00'')
          [\<lparr>chunk_type = ''CompositeElement'', chunk_text = ''hello world'', orig_elements = []\<rparr>]
          [''chunked_output'', ''doc.pdf''] ''doc.pdf.json''
          \<lparr> files = Map.empty, logged = [], fault = Some 7, clock = 0,
            exception_text = (\<lambda>p e. '''') \<rparr>) = Some OSError
   \<and> files (snd (save_chunks (\<lambda>t. ''2024-01-01T00:00:00'')
          [\<lparr>chunk_type = ''CompositeElement'', chunk_text = ''hello world'', orig_elements = []\<rparr>]
          [''chunked_output'', ''doc.pdf''] ''doc.pdf.json''
          \<lparr> files = Map.empty, logged = [], fault = Some 7, clock = 0,
            exception_text = (\<lambda>p e. '''') \<rparr>))
        [''chunked_output'', ''doc.chunks.json'']
     = Some (TextFile (''['' @ [CHR 0x0A] @ ''  {'' @ [CHR 0x0A]))
   \<and> fst (save_chunks (\<lambda>t. ''2024-01-01T00:00:00'')
          [\<lparr>chunk_type = ''CompositeElement'', chunk_text = ''hello world'', orig_elements = []\<rparr>]
          [''chunked_output'', ''doc.pdf''] ''doc.pdf.json''
          \<lparr> files = Map.empty, logged = [],
            fault = Some (1 + length (json_text 0 (JList (json_records
                      (\<lambda>t. ''2024-01-01T00:00:00'') ''doc.pdf.json'' 0
                      [\<lparr>chunk_type = ''CompositeElement'', chunk_text = ''hello world'',
                        orig_elements = []\<rparr>]))) + 1 + 30),
            clock = 0, exception_text = (\<lambda>p e. '''') \<rparr>) = Some OSError
   \<and> files (snd (save_chunks (\<lambda>t. ''2024-01-01T00:00:00'')
          [\<lparr>chunk_type = ''CompositeElement'', chunk_text = ''hello world'', orig_elements = []\<rparr>]
          [''chunked_output'', ''doc.pdf''] ''doc.pdf.json''
          \<lparr> files = Map.empty, logged = [],
            fault = Some (1 + length (json_text 0 (JList (json_records
                      (\<lambda>t. ''2024-01-01T00:00:00'') ''doc.pdf.json'' 0
                      [\<lparr>chunk_type = ''CompositeElement'', chunk_text = ''hello world'',
                        orig_elements = []\<rparr>]))) + 1 + 30),
            clock = 0, exception_text = (\<lambda>p e. '''') \<rparr>))
        [''chunked_output'', ''doc.chunks.txt'']
     = Some (TextFile ''CHUNKED DOCUMENT: doc.pdf.json'')"
  by (simp add: run_defs)

section \<open>Input errors: theorems\<close>

lemma read_json_logged [simp]:
  "read_json p (logger_info m w) = read_json p w"
  by (simp add: read_json_def logger_info_def)

lemma exception_text_logged [simp]:
  "exception_text (logger_info m w) = exception_text w"
  by (simp add: logger_info_def)






lemma elements_of_items_all:
  assumes "list_all2 (\<lambda>x el. element_of_item lib x = Inr el) items els"
  shows "elements_of_items lib items = Inr els"
  using assms by (induction rule: list_all2_induct) simp_all






section \<open>The retrieval documents: theorems\<close>

lemma document_of_chunk_eq:
  assumes "map_of c ''text'' = Some (JStr t)"
      and "dict_get c ''metadata'' (JObj []) = JObj md"
  shows "document_of_chunk json_file (JObj c) =
     Inr \<lparr> page_content = t,
           doc_metadata = AList.delete ''languages''
              (AList.update ''source''
                 (dict_get md ''original_filename'' (JStr (path_stem json_file))) md) \<rparr>"
proof -
  let ?m1 = "AList.update ''source''
                 (dict_get md ''original_filename'' (JStr (path_stem json_file))) md"
  have "map_of ?m1 ''languages'' = None \<Longrightarrow> AList.delete ''languages'' ?m1 = ?m1"
    by (simp add: delete_id map_of_eq_None_iff)
  then show ?thesis
    using assms by (auto simp add: document_of_chunk_def Let_def)
qed

lemma adapter_metadata:
  "map_of (AList.delete ''languages'' (AList.update ''source'' v md)) k =
     (if k = ''languages'' then None else if k = ''source'' then Some v else map_of md k)"
  by (simp add: delete_conv' update_conv')

lemma chunk_data_shape:
  "\<exists>c md. chunk_data now original_filename t i chunk = JObj c
      \<and> map_of c ''text'' = Some (JStr (chunk_text chunk))
      \<and> map_of c ''metadata'' = Some (JObj md)
      \<and> map_of md ''original_filename'' = Some (JStr original_filename)"
  by (simp add: chunk_data_def)

lemma record_document:
  assumes tx: "map_of c ''text'' = Some (JStr t)"
    and m: "map_of c ''metadata'' = Some (JObj md)"
    and fn: "map_of md ''original_filename'' = Some name"
  shows "\<exists>doc. document_of_chunk json_file (JObj c) = Inr doc
           \<and> page_content doc = t
           \<and> map_of (doc_metadata doc) ''source'' = Some name
           \<and> ''languages'' \<notin> fst ` set (doc_metadata doc)
           \<and> (\<forall>k. k \<noteq> ''languages'' \<and> k \<noteq> ''source'' \<longrightarrow>
                  map_of (doc_metadata doc) k = map_of md k)"
proof -
  have md: "dict_get c ''metadata'' (JObj []) = JObj md"
    using m by (simp add: dict_get_def)
  have src: "dict_get md ''original_filename'' (JStr (path_stem json_file)) = name"
    using fn by (simp add: dict_get_def)
  show ?thesis
    using document_of_chunk_eq [OF tx md, of json_file]
    by (simp add: src adapter_metadata map_of_eq_None_iff [symmetric])
qed

lemma persisted_chunk_document:
  "\<exists>doc. document_of_chunk json_file (chunk_data now original_filename t i chunk) = Inr doc
      \<and> page_content doc = chunk_text chunk
      \<and> map_of (doc_metadata doc) ''source'' = Some (JStr original_filename)
      \<and> ''languages'' \<notin> fst ` set (doc_metadata doc)"
proof -
  from chunk_data_shape [of now original_filename t i chunk] obtain c md where
    c: "chunk_data now original_filename t i chunk = JObj c"
    and tx: "map_of c ''text'' = Some (JStr (chunk_text chunk))"
    and m: "map_of c ''metadata'' = Some (JObj md)"
    and fn: "map_of md ''original_filename'' = Some (JStr original_filename)"
    by (elim exE conjE)
  from record_document [OF tx m fn, of json_file] c show ?thesis by auto
qed

lemma persisted_chunk_exact:
  "document_of_chunk json_file (chunk_data now original_filename t i chunk)
     = Inr \<lparr> page_content = chunk_text chunk,
             doc_metadata =
               [(''original_filename'', JStr original_filename),
                (''chunk_index'', JInt (int i + 1)),
                (''character_count'', JInt (int (length (chunk_text chunk)))),
                (''word_count'', JInt (int (word_count (chunk_text chunk)))),
                (''created_at'', JStr (now t))]
               @ (if orig_elements chunk \<noteq> []
                  then [(''original_elements_count'', JInt (int (length (orig_elements chunk)))),
                        (''original_element_types'',
                           JList (map (\<lambda>elem_class_name. JStr elem_class_name)
                                    (orig_elements chunk)))]
                  else [])
               @ [(''source'', JStr original_filename)] \<rparr>"
  by (simp add: document_of_chunk_def chunk_data_def dict_get_def)

lemma documents_of_chunks_all:
  "(\<forall>r \<in> set recs. \<exists>doc. document_of_chunk json_file r = Inr doc)
   \<Longrightarrow> \<exists>docs. documents_of_chunks json_file recs = Inr docs
          \<and> map Inr docs = map (document_of_chunk json_file) recs"
proof (induction recs)
  case Nil
  then show ?case by simp
next
  case (Cons r recs)
  from Cons.prems obtain doc where d: "document_of_chunk json_file r = Inr doc" by auto
  from Cons.prems have "\<forall>r \<in> set recs. \<exists>doc. document_of_chunk json_file r = Inr doc"
    by simp
  from Cons.IH [OF this] obtain docs where
    ds: "documents_of_chunks json_file recs = Inr docs"
    and eq: "map Inr docs = map (document_of_chunk json_file) recs" by (elim exE conjE)
  have "documents_of_chunks json_file (r # recs) = Inr (doc # docs)"
    by (simp add: d ds)
  moreover have "map Inr (doc # docs) = map (document_of_chunk json_file) (r # recs)"
    by (simp add: d eq)
  ultimately show ?case by (intro exI [of _ "doc # docs"] conjI)
qed

lemma load_chunked_file_all:
  assumes fl: "files w json_file = Some (JsonFile (JList recs))"
    and conv: "\<forall>r \<in> set recs. \<exists>doc. document_of_chunk json_file r = Inr doc"
  shows "\<exists>docs. load_chunked_file json_file w = Inr docs
          \<and> map Inr docs = map (document_of_chunk json_file) recs"
  using documents_of_chunks_all [OF conv] fl
  by (simp add: load_chunked_file_def read_json_def py_iter_def)

lemma load_chunked_files_all:
  "list_all2 (\<lambda>f recs. files w f = Some (JsonFile (JList recs))) json_files recss
   \<Longrightarrow> (\<forall>x \<in> set (zip json_files recss).
          \<forall>r \<in> set (snd x). \<exists>doc. document_of_chunk (fst x) r = Inr doc)
   \<Longrightarrow> \<exists>docs. load_chunked_files json_files w = Inr docs
          \<and> map Inr docs
              = concat (map (\<lambda>x. map (document_of_chunk (fst x)) (snd x))
                          (zip json_files recss))"
proof (induction rule: list_all2_induct)
  case Nil
  then show ?case by simp
next
  case (Cons f fs recs recss)
  from Cons.prems have c1: "\<forall>r \<in> set recs. \<exists>doc. document_of_chunk f r = Inr doc"
    by simp
  from Cons.prems have c2: "\<forall>x \<in> set (zip fs recss).
          \<forall>r \<in> set (snd x). \<exists>doc. document_of_chunk (fst x) r = Inr doc"
    by simp
  from load_chunked_file_all [OF Cons.hyps(1) c1] obtain docs where
    d: "load_chunked_file f w = Inr docs"
    and de: "map Inr docs = map (document_of_chunk f) recs" by (elim exE conjE)
  from Cons.IH [OF c2] obtain others where
    r: "load_chunked_files fs w = Inr others"
    and re: "map Inr others
              = concat (map (\<lambda>x. map (document_of_chunk (fst x)) (snd x)) (zip fs recss))"
    by (elim exE conjE)
  have "load_chunked_files (f # fs) w = Inr (docs @ others)"
    by (simp add: d r)
  moreover have "map Inr (docs @ others)
              = concat (map (\<lambda>x. map (document_of_chunk (fst x)) (snd x))
                          (zip (f # fs) (recs # recss)))"
    by (simp add: de re)
  ultimately show ?case by (intro exI [of _ "docs @ others"] conjI)
qed

lemma documents_of_persisted:
  "\<exists>docs. documents_of_chunks json_file
            (map (\<lambda>(i, chunk). chunk_data now original_filename (f i) i chunk)
               (enumerate n chunks)) = Inr docs
      \<and> map Inr docs
          = map (document_of_chunk json_file)
              (map (\<lambda>(i, chunk). chunk_data now original_filename (f i) i chunk)
                 (enumerate n chunks))
      \<and> map page_content docs = map chunk_text chunks
      \<and> map (\<lambda>doc. map_of (doc_metadata doc) ''source'') docs
          = map (\<lambda>chunk. Some (JStr original_filename)) chunks
      \<and> (\<forall>doc \<in> set docs. ''languages'' \<notin> fst ` set (doc_metadata doc))"
proof (induction chunks arbitrary: n)
  case Nil
  then show ?case by simp
next
  case (Cons chunk chunks)
  from persisted_chunk_document [of json_file now original_filename "f n" n chunk]
  obtain doc where
    d: "document_of_chunk json_file (chunk_data now original_filename (f n) n chunk) = Inr doc"
    and pc: "page_content doc = chunk_text chunk"
    and src: "map_of (doc_metadata doc) ''source'' = Some (JStr original_filename)"
    and lang: "''languages'' \<notin> fst ` set (doc_metadata doc)" by (elim exE conjE)
  from Cons.IH [of "Suc n"] obtain docs where
    ds: "documents_of_chunks json_file
            (map (\<lambda>(i, chunk). chunk_data now original_filename (f i) i chunk)
               (enumerate (Suc n) chunks)) = Inr docs"
    and eq: "map Inr docs
          = map (document_of_chunk json_file)
              (map (\<lambda>(i, chunk). chunk_data now original_filename (f i) i chunk)
                 (enumerate (Suc n) chunks))"
    and pcs: "map page_content docs = map chunk_text chunks"
    and srcs: "map (\<lambda>doc. map_of (doc_metadata doc) ''source'') docs
          = map (\<lambda>chunk. Some (JStr original_filename)) chunks"
    and all: "\<forall>doc \<in> set docs. ''languages'' \<notin> fst ` set (doc_metadata doc)"
    by (elim exE conjE)
  have "documents_of_chunks json_file
            (map (\<lambda>(i, chunk). chunk_data now original_filename (f i) i chunk)
               (enumerate n (chunk # chunks))) = Inr (doc # docs)"
    by (simp add: d ds)
  moreover have "map Inr (doc # docs)
          = map (document_of_chunk json_file)
              (map (\<lambda>(i, chunk). chunk_data now original_filename (f i) i chunk)
                 (enumerate n (chunk # chunks)))"
    using eq by (simp add: d)
  moreover have "map page_content (doc # docs) = map chunk_text (chunk # chunks)"
    by (simp add: pc pcs)
  moreover have "map (\<lambda>doc. map_of (doc_metadata doc) ''source'') (doc # docs)
          = map (\<lambda>chunk. Some (JStr original_filename)) (chunk # chunks)"
    by (simp add: src srcs)
  moreover have "\<forall>doc \<in> set (doc # docs). ''languages'' \<notin> fst ` set (doc_metadata doc)"
    using lang all by simp
  ultimately show ?case by (intro exI [of _ "doc # docs"] conjI)
qed

lemma load_persisted_file:
  assumes fl: "files w json_file
                 = Some (JsonFile (JList (json_records now original_filename t chunks)))"
  shows "\<exists>docs. load_chunked_file json_file w = Inr docs
      \<and> map Inr docs
          = map (document_of_chunk json_file) (json_records now original_filename t chunks)
      \<and> map page_content docs = map chunk_text chunks
      \<and> map (\<lambda>doc. map_of (doc_metadata doc) ''source'') docs
          = map (\<lambda>chunk. Some (JStr original_filename)) chunks
      \<and> (\<forall>doc \<in> set docs. ''languages'' \<notin> fst ` set (doc_metadata doc))"
proof -
  have "load_chunked_file json_file w
          = documents_of_chunks json_file (json_records now original_filename t chunks)"
    using fl by (simp add: load_chunked_file_def read_json_def py_iter_def)
  then show ?thesis
    using documents_of_persisted [of json_file now original_filename "\<lambda>i. t + i" 0 chunks]
    by (simp add: json_records_def)
qed

lemma load_persisted_files:
  "list_all2 (\<lambda>f s. files w f
       = Some (JsonFile (JList (json_records now (fst s) (fst (snd s)) (snd (snd s))))))
     chunk_files saved
   \<Longrightarrow> \<exists>docs. load_chunked_files chunk_files w = Inr docs
      \<and> map Inr docs
          = concat (map (\<lambda>x. map (document_of_chunk (fst x))
                                (json_records now (fst (snd x)) (fst (snd (snd x)))
                                   (snd (snd (snd x)))))
                      (zip chunk_files saved))
      \<and> map page_content docs = concat (map (\<lambda>s. map chunk_text (snd (snd s))) saved)
      \<and> map (\<lambda>doc. map_of (doc_metadata doc) ''source'') docs
          = concat (map (\<lambda>s. map (\<lambda>chunk. Some (JStr (fst s))) (snd (snd s))) saved)
      \<and> (\<forall>doc \<in> set docs. ''languages'' \<notin> fst ` set (doc_metadata doc))"
proof (induction rule: list_all2_induct)
  case Nil
  then show ?case by simp
next
  case (Cons f fs s ss)
  from load_persisted_file [OF Cons.hyps(1)] obtain docs where
    d: "load_chunked_file f w = Inr docs"
    and de: "map Inr docs
          = map (document_of_chunk f) (json_records now (fst s) (fst (snd s)) (snd (snd s)))"
    and dp: "map page_content docs = map chunk_text (snd (snd s))"
    and dsrc: "map (\<lambda>doc. map_of (doc_metadata doc) ''source'') docs
          = map (\<lambda>chunk. Some (JStr (fst s))) (snd (snd s))"
    and dl: "\<forall>doc \<in> set docs. ''languages'' \<notin> fst ` set (doc_metadata doc)"
    by (elim exE conjE)
  from Cons.IH obtain others where
    r: "load_chunked_files fs w = Inr others"
    and re: "map Inr others
          = concat (map (\<lambda>x. map (document_of_chunk (fst x))
                                (json_records now (fst (snd x)) (fst (snd (snd x)))
                                   (snd (snd (snd x)))))
                      (zip fs ss))"
    and rp: "map page_content others = concat (map (\<lambda>s. map chunk_text (snd (snd s))) ss)"
    and rsrc: "map (\<lambda>doc. map_of (doc_metadata doc) ''source'') others
          = concat (map (\<lambda>s. map (\<lambda>chunk. Some (JStr (fst s))) (snd (snd s))) ss)"
    and rl: "\<forall>doc \<in> set others. ''languages'' \<notin> fst ` set (doc_metadata doc)"
    by (elim exE conjE)
  have "load_chunked_files (f # fs) w = Inr (docs @ others)"
    by (simp add: d r)
  moreover have "map Inr (docs @ others)
          = concat (map (\<lambda>x. map (document_of_chunk (fst x))
                                (json_records now (fst (snd x)) (fst (snd (snd x)))
                                   (snd (snd (snd x)))))
                      (zip (f # fs) (s # ss)))"
    by (simp add: de re)
  moreover have "map page_content (docs @ others)
          = concat (map (\<lambda>s. map chunk_text (snd (snd s))) (s # ss))"
    by (simp add: dp rp)
  moreover have "map (\<lambda>doc. map_of (doc_metadata doc) ''source'') (docs @ others)
          = concat (map (\<lambda>s. map (\<lambda>chunk. Some (JStr (fst s))) (snd (snd s))) (s # ss))"
    by (simp add: dsrc rsrc)
  moreover have "\<forall>doc \<in> set (docs @ others). ''languages'' \<notin> fst ` set (doc_metadata doc)"
    using dl rl by auto
  ultimately show ?case by (intro exI [of _ "docs @ others"] conjI)
qed

text \<open>
  C8 (as the code has it).  For a chunk record with a text, a metadata dict and the
  key \<open>original_filename\<close> in it, the adapter builds a document whose content is the
  text unchanged and whose metadata has \<open>source\<close> equal to the original filename, has
  no key \<open>languages\<close> at all, and agrees with the record's metadata on every other
  key: \<open>languages\<close> is the only field removed, and no value is replaced by another.
  The document of a record that \<^verbatim>\<open>save_chunks\<close> persists is given in full: the
  record's metadata, with the list-valued \<open>original_element_types\<close> still in it when
  the chunk has original elements, followed by \<open>source\<close>.  \<^verbatim>\<open>load_chunked_files\<close>
  converts every record of every chunks file, file after file and record after
  record; for files written by \<^verbatim>\<open>save_chunks\<close> it never fails, and the documents carry
  the texts of all chunks in order, each with the name of the file its chunk was
  made from as \<open>source\<close>.
\<close>

theorem adapter_copies_text_sets_source_drops_languages:
  "(map_of c ''text'' = Some (JStr t) \<and> map_of c ''metadata'' = Some (JObj md)
      \<and> map_of md ''original_filename'' = Some name
    \<longrightarrow> (\<exists>doc. document_of_chunk json_file (JObj c) = Inr doc
           \<and> page_content doc = t
           \<and> map_of (doc_metadata doc) ''source'' = Some name
           \<and> ''languages'' \<notin> fst ` set (doc_metadata doc)
           \<and> (\<forall>k. k \<noteq> ''languages'' \<and> k \<noteq> ''source'' \<longrightarrow>
                  map_of (doc_metadata doc) k = map_of md k)))
   \<and> (\<exists>doc. document_of_chunk json_file (chunk_data now original_filename tk i chunk) = Inr doc
           \<and> page_content doc = chunk_text chunk
           \<and> map_of (doc_metadata doc) ''source'' = Some (JStr original_filename)
           \<and> ''languages'' \<notin> fst ` set (doc_metadata doc))
   \<and> document_of_chunk json_file (chunk_data now original_filename tk i chunk)
       = Inr \<lparr> page_content = chunk_text chunk,
               doc_metadata =
                 [(''original_filename'', JStr original_filename),
                  (''chunk_index'', JInt (int i + 1)),
                  (''character_count'', JInt (int (length (chunk_text chunk)))),
                  (''word_count'', JInt (int (word_count (chunk_text chunk)))),
                  (''created_at'', JStr (now tk))]
                 @ (if orig_elements chunk \<noteq> []
                    then [(''original_elements_count'',
                             JInt (int (length (orig_elements chunk)))),
                          (''original_element_types'',
                             JList (map (\<lambda>elem_class_name. JStr elem_class_name)
                                      (orig_elements chunk)))]
                    else [])
                 @ [(''source'', JStr original_filename)] \<rparr>
   \<and> (list_all2 (\<lambda>f recs. files w f = Some (JsonFile (JList recs))) json_files recss
      \<and> (\<forall>(f, recs) \<in> set (zip json_files recss).
            \<forall>r \<in> set recs. \<exists>doc. document_of_chunk f r = Inr doc)
    \<longrightarrow> (\<exists>docs. load_chunked_files json_files w = Inr docs
           \<and> map Inr docs
               = concat (map (\<lambda>(f, recs). map (document_of_chunk f) recs)
                           (zip json_files recss))))
   \<and> (list_all2 (\<lambda>f (name, t0, chunks).
          files w f = Some (JsonFile (JList (json_records now name t0 chunks))))
        chunk_files saved
    \<longrightarrow> (\<exists>docs. load_chunked_files chunk_files w = Inr docs
           \<and> map Inr docs
               = concat (map (\<lambda>(f, name, t0, chunks).
                                 map (document_of_chunk f) (json_records now name t0 chunks))
                           (zip chunk_files saved))
           \<and> map page_content docs
               = concat (map (\<lambda>(name, t0, chunks). map chunk_text chunks) saved)
           \<and> map (\<lambda>doc. map_of (doc_metadata doc) ''source'') docs
               = concat (map (\<lambda>(name, t0, chunks). map (\<lambda>chunk. Some (JStr name)) chunks)
                           saved)
           \<and> (\<forall>doc \<in> set docs. ''languages'' \<notin> fst ` set (doc_metadata doc))))"
proof -
  have gen: "map_of c ''text'' = Some (JStr t) \<and> map_of c ''metadata'' = Some (JObj md)
      \<and> map_of md ''original_filename'' = Some name
    \<longrightarrow> (\<exists>doc. document_of_chunk json_file (JObj c) = Inr doc
           \<and> page_content doc = t
           \<and> map_of (doc_metadata doc) ''source'' = Some name
           \<and> ''languages'' \<notin> fst ` set (doc_metadata doc)
           \<and> (\<forall>k. k \<noteq> ''languages'' \<and> k \<noteq> ''source'' \<longrightarrow>
                  map_of (doc_metadata doc) k = map_of md k))"
    using record_document [of c t md name json_file] by blast
  note per = persisted_chunk_document [of json_file now original_filename tk i chunk]
  note exact = persisted_chunk_exact [of json_file now original_filename tk i chunk]
  have loop: "list_all2 (\<lambda>f recs. files w f = Some (JsonFile (JList recs))) json_files recss
      \<and> (\<forall>(f, recs) \<in> set (zip json_files recss).
            \<forall>r \<in> set recs. \<exists>doc. document_of_chunk f r = Inr doc)
    \<longrightarrow> (\<exists>docs. load_chunked_files json_files w = Inr docs
           \<and> map Inr docs
               = concat (map (\<lambda>(f, recs). map (document_of_chunk f) recs)
                           (zip json_files recss)))"
  proof
    assume a: "list_all2 (\<lambda>f recs. files w f = Some (JsonFile (JList recs))) json_files recss
      \<and> (\<forall>(f, recs) \<in> set (zip json_files recss).
            \<forall>r \<in> set recs. \<exists>doc. document_of_chunk f r = Inr doc)"
    then have a1: "list_all2 (\<lambda>f recs. files w f = Some (JsonFile (JList recs)))
                     json_files recss" by (rule conjunct1)
    from a have a2: "\<forall>x \<in> set (zip json_files recss).
          \<forall>r \<in> set (snd x). \<exists>doc. document_of_chunk (fst x) r = Inr doc"
      by (simp add: split_def)
    from load_chunked_files_all [OF a1 a2]
    show "\<exists>docs. load_chunked_files json_files w = Inr docs
           \<and> map Inr docs
               = concat (map (\<lambda>(f, recs). map (document_of_chunk f) recs)
                           (zip json_files recss))"
      by (simp add: split_def)
  qed
  have persisted: "list_all2 (\<lambda>f (name, t0, chunks).
          files w f = Some (JsonFile (JList (json_records now name t0 chunks))))
        chunk_files saved
    \<longrightarrow> (\<exists>docs. load_chunked_files chunk_files w = Inr docs
           \<and> map Inr docs
               = concat (map (\<lambda>(f, name, t0, chunks).
                                 map (document_of_chunk f) (json_records now name t0 chunks))
                           (zip chunk_files saved))
           \<and> map page_content docs
               = concat (map (\<lambda>(name, t0, chunks). map chunk_text chunks) saved)
           \<and> map (\<lambda>doc. map_of (doc_metadata doc) ''source'') docs
               = concat (map (\<lambda>(name, t0, chunks). map (\<lambda>chunk. Some (JStr name)) chunks)
                           saved)
           \<and> (\<forall>doc \<in> set docs. ''languages'' \<notin> fst ` set (doc_metadata doc)))"
  proof
    assume "list_all2 (\<lambda>f (name, t0, chunks).
          files w f = Some (JsonFile (JList (json_records now name t0 chunks))))
        chunk_files saved"
    then have "list_all2 (\<lambda>f s. files w f
       = Some (JsonFile (JList (json_records now (fst s) (fst (snd s)) (snd (snd s))))))
     chunk_files saved"
      by (simp add: split_def)
    from load_persisted_files [OF this]
    show "\<exists>docs. load_chunked_files chunk_files w = Inr docs
           \<and> map Inr docs
               = concat (map (\<lambda>(f, name, t0, chunks).
                                 map (document_of_chunk f) (json_records now name t0 chunks))
                           (zip chunk_files saved))
           \<and> map page_content docs
               = concat (map (\<lambda>(name, t0, chunks). map chunk_text chunks) saved)
           \<and> map (\<lambda>doc. map_of (doc_metadata doc) ''source'') docs
               = concat (map (\<lambda>(name, t0, chunks). map (\<lambda>chunk. Some (JStr name)) chunks)
                           saved)
           \<and> (\<forall>doc \<in> set docs. ''languages'' \<notin> fst ` set (doc_metadata doc))"
      by (simp add: split_def)
  qed
  from gen per exact loop persisted show ?thesis by (intro conjI)
qed

theorem adapter_copies_text_sets_source_drops_languages_witness:
  "load_chunked_files
     [[''chunked_output'', ''a.chunks.json''], [''chunked_output'', ''b.chunks.json'']]
     \<lparr> files =
         [[''chunked_output'', ''a.chunks.json''] \<mapsto>
            JsonFile (JList
              [JObj [(''chunk_id'', JInt 1), (''text'', JStr ''hello world''),
                     (''type'', JStr ''CompositeElement''),
                     (''metadata'', JObj [(''original_filename'', JStr ''a.pdf.json''),
                                          (''languages'', JList [JStr ''eng'']),
                                          (''chunk_index'', JInt 1)])]]),
          [''chunked_output'', ''b.chunks.json''] \<mapsto>
            JsonFile (JList (json_records (\<lambda>t. ''2024-01-01T00:00:00'') ''b.pdf.json'' 0
              [\<lparr>chunk_type = ''CompositeElement'', chunk_text = ''First part'',
                orig_elements = [''Title'']\<rparr>,
               \<lparr>chunk_type = ''CompositeElement'', chunk_text = ''second'',
                orig_elements = []\<rparr>]))],
       logged = [], fault = None, clock = 2, exception_text = (\<lambda>p e. '''') \<rparr>
   = Inr [\<lparr> page_content = ''hello world'',
             doc_metadata = [(''original_filename'', JStr ''a.pdf.json''),
                             (''chunk_index'', JInt 1),
                             (''source'', JStr ''a.pdf.json'')] \<rparr>,
          \<lparr> page_content = ''First part'',
             doc_metadata = [(''original_filename'', JStr ''b.pdf.json''),
                             (''chunk_index'', JInt 1),
                             (''character_count'', JInt 10),
                             (''word_count'', JInt 2),
                             (''created_at'', JStr ''2024-01-01T00:00:00''),
                             (''original_elements_count'', JInt 1),
                             (''original_element_types'', JList [JStr ''Title'']),
                             (''source'', JStr ''b.pdf.json'')] \<rparr>,
          \<lparr> page_content = ''second'',
             doc_metadata = [(''original_filename'', JStr ''b.pdf.json''),
                             (''chunk_index'', JInt 2),
                             (''character_count'', JInt 6),
                             (''word_count'', JInt 1),
                             (''created_at'', JStr ''2024-01-01T00:00:00''),
                             (''source'', JStr ''b.pdf.json'')] \<rparr>]"
  using adapter_copies_text_sets_source_drops_languages
    [where c = "[(''chunk_id'', JInt 1), (''text'', JStr ''hello world''),
                 (''type'', JStr ''CompositeElement''),
                 (''metadata'', JObj [(''original_filename'', JStr ''a.pdf.json''),
                                      (''languages'', JList [JStr ''eng'']),
                                      (''chunk_index'', JInt 1)])]"
       and t = "''hello world''"
       and md = "[(''original_filename'', JStr ''a.pdf.json''),
                  (''languages'', JList [JStr ''eng'']),
                  (''chunk_index'', JInt 1)]"
       and name = "JStr ''a.pdf.json''"
       and json_file = "[''chunked_output'', ''a.chunks.json'']"
       and now = "\<lambda>t. ''2024-01-01T00:00:00''"
       and json_files = "[[''chunked_output'', ''a.chunks.json''],
                          [''chunked_output'', ''b.chunks.json'']]"
       and recss = "[[JObj [(''chunk_id'', JInt 1), (''text'', JStr ''hello world''),
                     (''type'', JStr ''CompositeElement''),
                     (''metadata'', JObj [(''original_filename'', JStr ''a.pdf.json''),
                                          (''languages'', JList [JStr ''eng'']),
                                          (''chunk_index'', JInt 1)])]],
                     json_records (\<lambda>t. ''2024-01-01T00:00:00'') ''b.pdf.json'' 0
              [\<lparr>chunk_type = ''CompositeElement'', chunk_text = ''First part'',
                orig_elements = [''Title'']\<rparr>,
               \<lparr>chunk_type = ''CompositeElement'', chunk_text = ''second'',
                orig_elements = []\<rparr>]]"
       and chunk_files = "[[''chunked_output'', ''b.chunks.json'']]"
       and saved = "[(''b.pdf.json'', 0,
              [\<lparr>chunk_type = ''CompositeElement'', chunk_text = ''First part'',
                orig_elements = [''Title'']\<rparr>,
               \<lparr>chunk_type = ''CompositeElement'', chunk_text = ''second'',
                orig_elements = []\<rparr>])]"
       and w = "\<lparr> files =
         [[''chunked_output'', ''a.chunks.json''] \<mapsto>
            JsonFile (JList
              [JObj [(''chunk_id'', JInt 1), (''text'', JStr ''hello world''),
                     (''type'', JStr ''CompositeElement''),
                     (''metadata'', JObj [(''original_filename'', JStr ''a.pdf.json''),
                                          (''languages'', JList [JStr ''eng'']),
                                          (''chunk_index'', JInt 1)])]]),
          [''chunked_output'', ''b.chunks.json''] \<mapsto>
            JsonFile (JList (json_records (\<lambda>t. ''2024-01-01T00:00:00'') ''b.pdf.json'' 0
              [\<lparr>chunk_type = ''CompositeElement'', chunk_text = ''First part'',
                orig_elements = [''Title'']\<rparr>,
               \<lparr>chunk_type = ''CompositeElement'', chunk_text = ''second'',
                orig_elements = []\<rparr>]))],
       logged = [], fault = None, clock = 2, exception_text = (\<lambda>p e. '''') \<rparr>"]
  by (simp add: run_defs document_of_chunk_def load_chunked_file_def)

text \<open>
  C8 as stated fails: \<open>languages\<close> is the only field the adapter removes.  A chunk
  made from two elements is saved by \<^verbatim>\<open>save_chunks\<close> with the list-valued field
  \<open>original_element_types\<close> and without any \<open>languages\<close>; the document that
  \<^verbatim>\<open>load_chunked_files\<close> builds from the saved file still carries the list.  (The
  list is removed later, by \<^verbatim>\<open>filter_complex_metadata\<close> in setupRAG.py, not by the
  adapter.)
\<close>

theorem list_valued_field_kept_counterexample:
  "load_chunked_files [[''chunked_output'', ''doc.chunks.json'']]
     (snd (save_chunks (\<lambda>t. ''2024-01-01T00:00:00'')
             [\<lparr>chunk_type = ''CompositeElement'', chunk_text = ''hello world'',
               orig_elements = [''Title'', ''NarrativeText'']\<rparr>]
             [''chunked_output'', ''doc.pdf''] ''doc.pdf.json''
             \<lparr> files = Map.empty, logged = [], fault = None, clock = 0,
               exception_text = (\<lambda>p e. '''') \<rparr>))
   = Inr [\<lparr> page_content = ''hello world'',
             doc_metadata = [(''original_filename'', JStr ''doc.pdf.json''),
                             (''chunk_index'', JInt 1),
                             (''character_count'', JInt 11),
                             (''word_count'', JInt 2),
                             (''created_at'', JStr ''2024-01-01T00:00:00''),
                             (''original_elements_count'', JInt 2),
                             (''original_element_types'',
                                JList [JStr ''Title'', JStr ''NarrativeText'']),
                             (''source'', JStr ''doc.pdf.json'')] \<rparr>]"
  by (simp add: run_defs document_of_chunk_def load_chunked_file_def)

text \<open>
  C10. For a chunk record with a text, whose metadata is absent or a dict, the
  document's \<open>source\<close> is the value of \<open>original_filename\<close> when the metadata has
  that key, and the stem of the chunks file otherwise; for a file named
  \<open>doc.pdf.chunks.json\<close> that stem is \<open>doc.pdf.chunks\<close>.
\<close>

theorem source_falls_back_to_chunks_file_stem:
  "(map_of c ''text'' = Some (JStr t)
      \<and> (map_of c ''metadata'' = None \<and> md = [] \<or> map_of c ''metadata'' = Some (JObj md))
    \<longrightarrow> (\<exists>doc. document_of_chunk json_file (JObj c) = Inr doc
           \<and> map_of (doc_metadata doc) ''source''
               = Some (case map_of md ''original_filename'' of
                         None \<Rightarrow> JStr (path_stem json_file)
                       | Some v \<Rightarrow> v)))
   \<and> path_stem (dir @ [''doc.pdf.chunks.json'']) = ''doc.pdf.chunks''"
proof (intro conjI impI)
  assume a: "map_of c ''text'' = Some (JStr t)
      \<and> (map_of c ''metadata'' = None \<and> md = [] \<or> map_of c ''metadata'' = Some (JObj md))"
  then have tx: "map_of c ''text'' = Some (JStr t)" by simp
  from a have md: "dict_get c ''metadata'' (JObj []) = JObj md"
    by (auto simp add: dict_get_def)
  show "\<exists>doc. document_of_chunk json_file (JObj c) = Inr doc
           \<and> map_of (doc_metadata doc) ''source''
               = Some (case map_of md ''original_filename'' of
                         None \<Rightarrow> JStr (path_stem json_file)
                       | Some v \<Rightarrow> v)"
    using document_of_chunk_eq [OF tx md, of json_file]
    by (simp add: adapter_metadata dict_get_def)
next
  show "path_stem (dir @ [''doc.pdf.chunks.json'']) = ''doc.pdf.chunks''"
    by (simp add: path_stem_def path_name_def name_stem_def rfind_def)
qed

theorem source_falls_back_to_chunks_file_stem_witness:
  "document_of_chunk [''chunked_output'', ''doc.pdf.chunks.json'']
     (JObj [(''text'', JStr ''abc''), (''metadata'', JObj [(''chunk_index'', JInt 1)])])
   = Inr \<lparr> page_content = ''abc'',
           doc_metadata = [(''chunk_index'', JInt 1), (''source'', JStr ''doc.pdf.chunks'')] \<rparr>
   \<and> document_of_chunk [''chunked_output'', ''doc.pdf.chunks.json'']
     (JObj [(''text'', JStr ''abc''),
            (''metadata'', JObj [(''original_filename'', JStr ''doc.pdf.json'')])])
   = Inr \<lparr> page_content = ''abc'',
           doc_metadata = [(''original_filename'', JStr ''doc.pdf.json''),
                           (''source'', JStr ''doc.pdf.json'')] \<rparr>"
proof -
  have a: "document_of_chunk [''chunked_output'', ''doc.pdf.chunks.json'']
     (JObj [(''text'', JStr ''abc''), (''metadata'', JObj [(''chunk_index'', JInt 1)])])
   = Inr \<lparr> page_content = ''abc'',
           doc_metadata = [(''chunk_index'', JInt 1), (''source'', JStr ''doc.pdf.chunks'')] \<rparr>"
    using source_falls_back_to_chunks_file_stem
      [of "[(''text'', JStr ''abc''), (''metadata'', JObj [(''chunk_index'', JInt 1)])]"
          "''abc''" "[(''chunk_index'', JInt 1)]" "[''chunked_output'', ''doc.pdf.chunks.json'']"
          "[''chunked_output'']"]
    by (simp add: document_of_chunk_def dict_get_def path_stem_def path_name_def)
  have b: "document_of_chunk [''chunked_output'', ''doc.pdf.chunks.json'']
     (JObj [(''text'', JStr ''abc''),
            (''metadata'', JObj [(''original_filename'', JStr ''doc.pdf.json'')])])
   = Inr \<lparr> page_content = ''abc'',
           doc_metadata = [(''original_filename'', JStr ''doc.pdf.json''),
                           (''source'', JStr ''doc.pdf.json'')] \<rparr>"
    using source_falls_back_to_chunks_file_stem
      [of "[(''text'', JStr ''abc''),
            (''metadata'', JObj [(''original_filename'', JStr ''doc.pdf.json'')])]"
          "''abc''" "[(''original_filename'', JStr ''doc.pdf.json'')]"
          "[''chunked_output'', ''doc.pdf.chunks.json'']" "[''chunked_output'']"]
    by (simp add: document_of_chunk_def dict_get_def)
  from a b show ?thesis by (rule conjI)
qed

end
